theory Spec2Isabelle
  imports Main
begin

section \<open>Values and text\<close>

text \<open>
  The server (\<^verbatim>\<open>server.ts\<close>) keeps all state in one SQLite database and talks to it
  through SQL text that the route handlers assemble from the request. The embedding has
  three layers: the SQL text each handler builds (translated from the template strings of
  the source), the storage engine that compiles and runs that text over the tables declared
  by the \<^verbatim>\<open>CREATE TABLE\<close> statements of the source, and the handlers themselves.

  A stored value is NULL, an integer or a text. A JSON scalar of a request body is null, a
  number, a string or a boolean. Numbers are integers here: fractional numbers are not part
  of the model.
\<close>

datatype val = VNull | VInt int | VText string

datatype json = JNull | JNum int | JStr string | JBool bool

type_synonym row = "(string \<times> val) list"

definition col_val :: "row \<Rightarrow> string \<Rightarrow> val" where
  "col_val r c = (case map_of r c of Some v \<Rightarrow> v | None \<Rightarrow> VNull)"

fun put :: "string \<Rightarrow> val \<Rightarrow> row \<Rightarrow> row" where
  "put c v [] = [(c, v)]"
| "put c v ((k, x) # r) = (if k = c then (c, v) # r else (k, x) # put c v r)"

definition is_digit :: "char \<Rightarrow> bool" where
  "is_digit c = (c \<in> set ''0123456789'')"

definition is_word_char :: "char \<Rightarrow> bool" where
  "is_word_char c =
     (c \<in> set ''abcdefghijklmnopqrstuvwxyzABCDEFGHIJKLMNOPQRSTUVWXYZ0123456789_'')"

definition is_space :: "char \<Rightarrow> bool" where
  "is_space c = (c \<in> set [CHR '' '', CHR 0x09, CHR 0x0A, CHR 0x0C, CHR 0x0D])"

definition lower_char :: "char \<Rightarrow> char" where
  "lower_char c =
     (case map_of (zip ''ABCDEFGHIJKLMNOPQRSTUVWXYZ'' ''abcdefghijklmnopqrstuvwxyz'') c of
        Some d \<Rightarrow> d | None \<Rightarrow> c)"

definition lower :: "string \<Rightarrow> string" where
  "lower s = map lower_char s"

text \<open>A plain identifier: a non-empty run of letters, digits and underscores.\<close>

definition plain_ident :: "string \<Rightarrow> bool" where
  "plain_ident s = (s \<noteq> [] \<and> list_all is_word_char s)"

text \<open>\<^verbatim>\<open>Array.prototype.join\<close>.\<close>

fun join :: "string \<Rightarrow> string list \<Rightarrow> string" where
  "join sep [] = []"
| "join sep [x] = x"
| "join sep (x # y # ys) = x @ sep @ join sep (y # ys)"

subsection \<open>Decimal text\<close>

definition digit_val :: "char \<Rightarrow> int" where
  "digit_val c = (case map_of (zip ''0123456789'' [0, 1, 2, 3, 4, 5, 6, 7, 8, 9]) c of
                    Some d \<Rightarrow> d | None \<Rightarrow> 0)"

definition int_of_digits :: "string \<Rightarrow> int" where
  "int_of_digits s = foldl (\<lambda>n c. 10 * n + digit_val c) 0 s"

definition digit_char :: "nat \<Rightarrow> char" where
  "digit_char d = ''0123456789'' ! (d mod 10)"

function show_nat :: "nat \<Rightarrow> string" where
  "show_nat n = (if n < 10 then [digit_char n] else show_nat (n div 10) @ [digit_char n])"
  by pat_completeness auto
termination
  by (relation "measure id") auto

declare show_nat.simps [simp del]

definition show_int :: "int \<Rightarrow> string" where
  "show_int i = (if i < 0 then CHR ''-'' # show_nat (nat (- i)) else show_nat (nat i))"

text \<open>
  Text of digits with an optional minus sign is an integer literal. SQLite also reads text
  with surrounding blanks, a plus sign, a decimal point or an exponent as a number; such
  text, and an integer beyond 64 bits, is \<open>looks_numeric\<close> but not an integer literal,
  and the model does not say what it converts to (\<open>numeric_affinity\<close> is \<open>None\<close>).
\<close>

definition strip_sign :: "string \<Rightarrow> string" where
  "strip_sign s = (case s of c # cs \<Rightarrow> if c = CHR ''-'' \<or> c = CHR ''+'' then cs else s
                   | [] \<Rightarrow> [])"

definition int_literal :: "string \<Rightarrow> int option" where
  "int_literal s =
     (let neg = (take 1 s = ''-'');
          ds = (if neg then drop 1 s else s);
          n = (if neg then - int_of_digits ds else int_of_digits ds)
      in if ds \<noteq> [] \<and> list_all is_digit ds \<and> - (2 ^ 63) \<le> n \<and> n < 2 ^ 63
         then Some n else None)"

definition looks_numeric :: "string \<Rightarrow> bool" where
  "looks_numeric s =
     (let body = strip_sign (dropWhile is_space s);
          mant = takeWhile (\<lambda>c. is_digit c \<or> c = CHR ''.'') body;
          rest = dropWhile (\<lambda>c. is_digit c \<or> c = CHR ''.'') body;
          expo = (case rest of c # cs \<Rightarrow>
                    if c = CHR ''e'' \<or> c = CHR ''E'' then dropWhile is_digit (strip_sign cs)
                    else rest
                  | [] \<Rightarrow> [])
      in list_ex is_digit mant \<and> list_all is_space expo)"

definition numeric_affinity :: "string \<Rightarrow> val option" where
  "numeric_affinity s =
     (case int_literal s of
        Some n \<Rightarrow> Some (VInt n)
      | None \<Rightarrow> if looks_numeric s then None else Some (VText s))"

section \<open>The SQL text the engine accepts\<close>

text \<open>
  The handlers splice the module name and the keys of the request body into SQL text, so
  the engine is modelled from the text on: a tokenizer (blanks, \<^verbatim>\<open>--\<close> comments, words and
  the punctuation the statements use) and a parser for the three statement forms of the
  generic routes. Text outside these forms is \<open>Outside\<close>: the model does not say what SQLite
  does with it. The two forms that the handlers produce for an empty body,
  \<^verbatim>\<open>INSERT INTO t ()\<close> and \<^verbatim>\<open>UPDATE t SET ,\<close>, are syntax errors of SQLite.
\<close>

datatype token = Word string | LParen | RParen | Comma | Equals | QMark | Star | Other

definition sym_token :: "char \<Rightarrow> token" where
  "sym_token c =
     (if c = CHR ''('' then LParen else if c = CHR '')'' then RParen
      else if c = CHR '','' then Comma else if c = CHR ''='' then Equals
      else if c = CHR ''?'' then QMark else if c = CHR ''*'' then Star else Other)"

function tokenize :: "string \<Rightarrow> token list" where
  "tokenize [] = []"
| "tokenize (c # cs) =
     (if is_word_char c
        then Word (c # takeWhile is_word_char cs) # tokenize (dropWhile is_word_char cs)
      else if is_space c then tokenize cs
      else if c = CHR ''-'' \<and> take 1 cs = ''-''
        then tokenize (dropWhile (\<lambda>x. x \<noteq> CHR 0x0A) cs)
      else if sym_token c = Other then [Other]
      else sym_token c # tokenize cs)"
  by pat_completeness auto
termination
  by (relation "measure length") (auto simp: less_Suc_eq_le length_dropWhile_le)

datatype rhs = RParam | RNow | RNull | RInt int

datatype cond = CEq string | CLikeOr string string

datatype stmt =
    Insert string "string list" nat
  | Update string "(string \<times> rhs) list"
  | Select string "cond list" string

datatype parsed = Parsed stmt | SyntaxError | Outside

definition kw :: "string \<Rightarrow> string \<Rightarrow> bool" where
  "kw w k = (lower w = k)"

fun parse_idents :: "token list \<Rightarrow> (string list \<times> token list) option" where
  "parse_idents (Word w # ts) =
     (case ts of
        Comma # ts' \<Rightarrow>
          (case parse_idents ts' of Some (ws, r) \<Rightarrow> Some (w # ws, r) | None \<Rightarrow> None)
      | _ \<Rightarrow> Some ([w], ts))"
| "parse_idents ts = None"

fun parse_qmarks :: "token list \<Rightarrow> (nat \<times> token list) option" where
  "parse_qmarks (QMark # ts) =
     (case ts of
        Comma # ts' \<Rightarrow>
          (case parse_qmarks ts' of Some (n, r) \<Rightarrow> Some (Suc n, r) | None \<Rightarrow> None)
      | _ \<Rightarrow> Some (1, ts))"
| "parse_qmarks ts = None"

definition parse_rhs :: "token \<Rightarrow> rhs option" where
  "parse_rhs t =
     (case t of
        QMark \<Rightarrow> Some RParam
      | Word w \<Rightarrow>
          if kw w ''current_timestamp'' then Some RNow
          else if kw w ''null'' then Some RNull
          else if list_all is_digit w then Some (RInt (int_of_digits w))
          else None
      | _ \<Rightarrow> None)"

fun parse_assigns :: "token list \<Rightarrow> ((string \<times> rhs) list \<times> token list) option" where
  "parse_assigns (Word c # ts) =
     (case ts of
        Equals # t # r \<Rightarrow>
          (case parse_rhs t of
             None \<Rightarrow> None
           | Some e \<Rightarrow>
               (case r of
                  Comma # r' \<Rightarrow>
                    (case parse_assigns r' of
                       Some (as, r'') \<Rightarrow> Some ((c, e) # as, r'') | None \<Rightarrow> None)
                | _ \<Rightarrow> Some ([(c, e)], r)))
      | _ \<Rightarrow> None)"
| "parse_assigns ts = None"

text \<open>One condition of a \<^verbatim>\<open>WHERE\<close> clause: \<^verbatim>\<open>c = ?\<close> or \<^verbatim>\<open>(a LIKE ? OR b LIKE ?)\<close>.\<close>

definition parse_cond :: "token list \<Rightarrow> (cond \<times> token list) option" where
  "parse_cond ts =
     (case ts of
        Word c # Equals # QMark # r \<Rightarrow> Some (CEq c, r)
      | LParen # Word c1 # Word l1 # QMark # Word or1 # Word c2 # Word l2 # QMark # RParen # r \<Rightarrow>
          if kw l1 ''like'' \<and> kw or1 ''or'' \<and> kw l2 ''like''
          then Some (CLikeOr c1 c2, r) else None
      | _ \<Rightarrow> None)"

text \<open>Conditions joined by \<^verbatim>\<open>AND\<close>; the fuel is the number of tokens.\<close>

fun parse_conds :: "nat \<Rightarrow> token list \<Rightarrow> (cond list \<times> token list) option" where
  "parse_conds 0 ts = None"
| "parse_conds (Suc k) ts =
     (case parse_cond ts of
        None \<Rightarrow> None
      | Some (c, r) \<Rightarrow>
          (case r of
             Word a # r' \<Rightarrow>
               if kw a ''and''
               then (case parse_conds k r' of
                       Some (cs, r'') \<Rightarrow> Some (c # cs, r'') | None \<Rightarrow> None)
               else Some ([c], r)
           | _ \<Rightarrow> Some ([c], r)))"

definition parse_insert :: "token list \<Rightarrow> parsed" where
  "parse_insert ts =
     (case ts of
        Word into # Word t # LParen # rest \<Rightarrow>
          if \<not> kw into ''into'' then Outside
          else (case parse_idents rest of
                  None \<Rightarrow> if take 1 rest = [RParen] then SyntaxError else Outside
                | Some (cols, rest1) \<Rightarrow>
                    (case rest1 of
                       RParen # Word v # LParen # rest2 \<Rightarrow>
                         if \<not> kw v ''values'' then Outside
                         else (case parse_qmarks rest2 of
                                 Some (n, [RParen]) \<Rightarrow> Parsed (Insert t cols n)
                               | _ \<Rightarrow> Outside)
                     | _ \<Rightarrow> Outside))
      | _ \<Rightarrow> Outside)"

definition parse_update :: "token list \<Rightarrow> parsed" where
  "parse_update ts =
     (case ts of
        Word t # Word s # rest \<Rightarrow>
          if \<not> kw s ''set'' then Outside
          else (case parse_assigns rest of
                  None \<Rightarrow> if take 1 rest = [Comma] then SyntaxError else Outside
                | Some (as, rest1) \<Rightarrow>
                    (case rest1 of
                       [Word w, Word i, Equals, QMark] \<Rightarrow>
                         if kw w ''where'' \<and> kw i ''id'' then Parsed (Update t as)
                         else Outside
                     | _ \<Rightarrow> Outside))
      | _ \<Rightarrow> Outside)"

definition parse_select :: "token list \<Rightarrow> parsed" where
  "parse_select ts =
     (case ts of
        Star # Word f # Word t # Word w # rest \<Rightarrow>
          if kw f ''from'' \<and> kw w ''where''
          then (case parse_conds (length rest) rest of
                  Some (cs, [Word ob, Word by, Word c, Word d]) \<Rightarrow>
                    if kw ob ''order'' \<and> kw by ''by'' \<and> kw d ''desc''
                    then Parsed (Select t cs c) else Outside
                | _ \<Rightarrow> Outside)
          else Outside
      | _ \<Rightarrow> Outside)"

definition parse :: "string \<Rightarrow> parsed" where
  "parse sql =
     (case tokenize sql of
        Word w # ts \<Rightarrow>
          if kw w ''insert'' then parse_insert ts
          else if kw w ''update'' then parse_update ts
          else if kw w ''select'' then parse_select ts
          else Outside
      | _ \<Rightarrow> Outside)"

section \<open>The schema\<close>

text \<open>
  The tables of the \<^verbatim>\<open>db.exec\<close> call at the top of the source. Every table has the column
  \<^verbatim>\<open>id INTEGER PRIMARY KEY AUTOINCREMENT\<close>; a column carries its declared type, its
  default, whether it is \<^verbatim>\<open>UNIQUE\<close>, and the table it \<^verbatim>\<open>REFERENCES\<close> (always by \<^verbatim>\<open>id\<close>).
  The defaults of \<^verbatim>\<open>status\<close> are Chinese text, written here as their UTF-8 bytes.
\<close>

datatype coltype = INTEGER | TEXT | REAL | DATETIME | DATE

datatype dflt = DNone | DText string | DInt int | DNow

datatype column =
  Column (cname: string) (ctype: coltype) (cdefault: dflt) (cunique: bool) (cref: "string option")

definition col :: "string \<Rightarrow> coltype \<Rightarrow> column" where
  "col n t = Column n t DNone False None"

definition ref :: "string \<Rightarrow> string \<Rightarrow> column" where
  "ref n p = Column n INTEGER DNone False (Some p)"

definition status_not_followed :: string where
  "status_not_followed =
     [CHR 0xE6, CHR 0x9C, CHR 0xAA, CHR 0xE8, CHR 0xB7, CHR 0x9F, CHR 0xE8, CHR 0xBF, CHR 0x9B]"

definition status_cooperating :: string where
  "status_cooperating =
     [CHR 0xE5, CHR 0x90, CHR 0x88, CHR 0xE4, CHR 0xBD, CHR 0x9C, CHR 0xE4, CHR 0xB8, CHR 0xAD]"

definition status_draft :: string where
  "status_draft = [CHR 0xE8, CHR 0x8D, CHR 0x89, CHR 0xE7, CHR 0xA8, CHR 0xBF]"

definition status_planning :: string where
  "status_planning =
     [CHR 0xE7, CHR 0xAD, CHR 0x96, CHR 0xE5, CHR 0x88, CHR 0x92, CHR 0xE4, CHR 0xB8, CHR 0xAD]"

definition soft_delete_columns :: "column list" where
  "soft_delete_columns =
     [Column ''created_at'' DATETIME DNow False None,
      Column ''updated_at'' DATETIME DNow False None,
      Column ''is_deleted'' INTEGER (DInt 0) False None,
      col ''deleted_at'' DATETIME]"

definition roles_columns :: "column list" where
  "roles_columns =
     [col ''id'' INTEGER, Column ''name'' TEXT DNone True None, col ''level'' INTEGER,
      col ''permissions'' TEXT]"

definition users_columns :: "column list" where
  "users_columns =
     [col ''id'' INTEGER, Column ''username'' TEXT DNone True None, col ''password'' TEXT,
      ref ''role_id'' ''roles'', col ''department'' TEXT]"

definition leads_columns :: "column list" where
  "leads_columns =
     [col ''id'' INTEGER, col ''name'' TEXT, col ''contact_person'' TEXT, col ''phone'' TEXT,
      col ''email'' TEXT, col ''source'' TEXT, col ''level'' TEXT,
      Column ''status'' TEXT (DText status_not_followed) False None,
      ref ''owner_id'' ''users''] @ soft_delete_columns"

definition customers_columns :: "column list" where
  "customers_columns =
     [col ''id'' INTEGER, col ''name'' TEXT, col ''type'' TEXT, col ''industry'' TEXT,
      col ''contact_person'' TEXT, col ''phone'' TEXT, col ''address'' TEXT, col ''level'' TEXT,
      Column ''status'' TEXT (DText status_cooperating) False None,
      ref ''owner_id'' ''users''] @ soft_delete_columns"

definition opportunities_columns :: "column list" where
  "opportunities_columns =
     [col ''id'' INTEGER, col ''name'' TEXT, ref ''customer_id'' ''customers'',
      col ''stage'' TEXT, col ''probability'' INTEGER, col ''amount'' REAL,
      col ''expected_date'' DATE, col ''description'' TEXT,
      ref ''owner_id'' ''users''] @ soft_delete_columns"

definition contracts_columns :: "column list" where
  "contracts_columns =
     [col ''id'' INTEGER, Column ''contract_no'' TEXT DNone True None, col ''name'' TEXT,
      ref ''customer_id'' ''customers'', ref ''opportunity_id'' ''opportunities'',
      col ''type'' TEXT, col ''amount'' REAL, col ''payment_method'' TEXT,
      col ''sign_date'' DATE, col ''expiry_date'' DATE,
      Column ''status'' TEXT (DText status_draft) False None,
      ref ''owner_id'' ''users''] @ soft_delete_columns"

definition activities_columns :: "column list" where
  "activities_columns =
     [col ''id'' INTEGER, col ''name'' TEXT, col ''type'' TEXT, col ''channel'' TEXT,
      col ''start_time'' DATETIME, col ''end_time'' DATETIME, col ''location'' TEXT,
      col ''details'' TEXT, col ''budget'' REAL,
      Column ''status'' TEXT (DText status_planning) False None,
      ref ''owner_id'' ''users''] @ soft_delete_columns"

definition comments_columns :: "column list" where
  "comments_columns =
     [col ''id'' INTEGER, col ''entity_type'' TEXT, col ''entity_id'' INTEGER,
      ref ''user_id'' ''users'', col ''content'' TEXT, col ''parent_id'' INTEGER,
      Column ''created_at'' DATETIME DNow False None]"

definition follow_ups_columns :: "column list" where
  "follow_ups_columns =
     [col ''id'' INTEGER, col ''entity_type'' TEXT, col ''entity_id'' INTEGER,
      col ''method'' TEXT, col ''result'' TEXT, col ''content'' TEXT,
      col ''next_step_time'' DATETIME, ref ''user_id'' ''users'',
      Column ''created_at'' DATETIME DNow False None]"

definition tables :: "(string \<times> column list) list" where
  "tables =
     [(''roles'', roles_columns), (''users'', users_columns), (''leads'', leads_columns),
      (''customers'', customers_columns), (''opportunities'', opportunities_columns),
      (''contracts'', contracts_columns), (''activities'', activities_columns),
      (''comments'', comments_columns), (''follow_ups'', follow_ups_columns)]"

definition columns_of :: "string \<Rightarrow> column list" where
  "columns_of t = (case map_of tables t of Some cs \<Rightarrow> cs | None \<Rightarrow> [])"

text \<open>
  SQLite compares the names of tables and columns without regard to ASCII case, and
  \<^verbatim>\<open>rowid\<close>, \<^verbatim>\<open>oid\<close> and \<^verbatim>\<open>_rowid_\<close> name the integer primary key of a table that has no
  column of that name.
\<close>

definition find_table :: "string \<Rightarrow> string option" where
  "find_table t = find (\<lambda>n. n = lower t) (map fst tables)"

definition find_column :: "column list \<Rightarrow> string \<Rightarrow> column option" where
  "find_column cols k =
     (case find (\<lambda>c. cname c = lower k) cols of
        Some c \<Rightarrow> Some c
      | None \<Rightarrow>
          if lower k \<in> set [''rowid'', ''oid'', ''_rowid_'']
          then find (\<lambda>c. cname c = ''id'') cols else None)"

definition type_of :: "column list \<Rightarrow> string \<Rightarrow> coltype" where
  "type_of cols c = (case find (\<lambda>x. cname x = c) cols of Some x \<Rightarrow> ctype x | None \<Rightarrow> TEXT)"

text \<open>The foreign keys of the schema: child table, child column, parent table.\<close>

definition references :: "(string \<times> string \<times> string) list" where
  "references =
     concat (map (\<lambda>(t, cols).
       concat (map (\<lambda>c. case cref c of Some p \<Rightarrow> [(t, cname c, p)] | None \<Rightarrow> []) cols)) tables)"

section \<open>The storage engine\<close>

text \<open>
  What \<^verbatim>\<open>better-sqlite3\<close> throws: an \<^verbatim>\<open>SqliteError\<close> with the result code of SQLite, a
  \<^verbatim>\<open>RangeError\<close> when the number of bound values is not the number of placeholders, a
  \<^verbatim>\<open>TypeError\<close> for a value it cannot bind. \<open>Unmodelled\<close> marks what the model does not
  cover: SQL text outside the parsed forms, a table that the schema above does not
  declare, numeric text that is not an integer literal, a number beyond 32 bits.
\<close>

datatype sqlite_code =
    SQLITE_ERROR | SQLITE_MISMATCH | SQLITE_FULL
  | SQLITE_CONSTRAINT_PRIMARYKEY | SQLITE_CONSTRAINT_UNIQUE | SQLITE_CONSTRAINT_FOREIGNKEY

datatype js_error = SqliteError sqlite_code | RangeError | TypeError

datatype failure = Thrown js_error | Unmodelled

text \<open>
  The database: the rows of each table, the \<^verbatim>\<open>sqlite_sequence\<close> counter that
  \<^verbatim>\<open>AUTOINCREMENT\<close> keeps for each table, whether foreign keys are enforced (a build and
  connection setting of the engine that the source does not fix), and how many statements
  have been handed to \<^verbatim>\<open>db.prepare\<close> so far.
\<close>

record db =
  tbl :: "string \<Rightarrow> row list"
  sqlite_sequence :: "string \<Rightarrow> int"
  foreign_keys :: bool
  prepared :: nat

definition row_id :: "row \<Rightarrow> val" where
  "row_id r = col_val r ''id''"

subsection \<open>Compiling a statement\<close>

fun resolve_cols :: "column list \<Rightarrow> string list \<Rightarrow> string list option" where
  "resolve_cols cols [] = Some []"
| "resolve_cols cols (k # ks) =
     (case find_column cols k of
        None \<Rightarrow> None
      | Some c \<Rightarrow> (case resolve_cols cols ks of
                    None \<Rightarrow> None | Some cs \<Rightarrow> Some (cname c # cs)))"

fun resolve_conds :: "column list \<Rightarrow> cond list \<Rightarrow> cond list option" where
  "resolve_conds cols [] = Some []"
| "resolve_conds cols (CEq c # cs) =
     (case resolve_cols cols [c] of
        Some [c'] \<Rightarrow> (case resolve_conds cols cs of
                       None \<Rightarrow> None | Some cs' \<Rightarrow> Some (CEq c' # cs'))
      | _ \<Rightarrow> None)"
| "resolve_conds cols (CLikeOr a b # cs) =
     (case resolve_cols cols [a, b] of
        Some [a', b'] \<Rightarrow> (case resolve_conds cols cs of
                           None \<Rightarrow> None | Some cs' \<Rightarrow> Some (CLikeOr a' b' # cs'))
      | _ \<Rightarrow> None)"

definition sql_error :: "failure + 'a" where
  "sql_error = Inl (Thrown (SqliteError SQLITE_ERROR))"

text \<open>
  \<^verbatim>\<open>db.prepare(sql)\<close>: the statement with the names of its table and columns resolved, or
  the error of SQLite for a syntax error, an unknown column, or a list of values that is
  not as long as the list of columns.
\<close>

definition prepare :: "string \<Rightarrow> failure + stmt" where
  "prepare sql =
     (case parse sql of
        Outside \<Rightarrow> Inl Unmodelled
      | SyntaxError \<Rightarrow> sql_error
      | Parsed (Insert t ks n) \<Rightarrow>
          (case find_table t of
             None \<Rightarrow> Inl Unmodelled
           | Some tn \<Rightarrow>
               (case resolve_cols (columns_of tn) ks of
                  None \<Rightarrow> sql_error
                | Some cs \<Rightarrow> if length cs = n then Inr (Insert tn cs n) else sql_error))
      | Parsed (Update t as) \<Rightarrow>
          (case find_table t of
             None \<Rightarrow> Inl Unmodelled
           | Some tn \<Rightarrow>
               (case resolve_cols (columns_of tn) (map fst as) of
                  None \<Rightarrow> sql_error
                | Some cs \<Rightarrow> Inr (Update tn (zip cs (map snd as)))))
      | Parsed (Select t cs oc) \<Rightarrow>
          (case find_table t of
             None \<Rightarrow> Inl Unmodelled
           | Some tn \<Rightarrow>
               (case resolve_conds (columns_of tn) cs of
                  None \<Rightarrow> sql_error
                | Some cs' \<Rightarrow>
                    (case resolve_cols (columns_of tn) [oc] of
                       Some [oc'] \<Rightarrow> Inr (Select tn cs' oc')
                     | _ \<Rightarrow> sql_error))))"

subsection \<open>Binding and storing values\<close>

definition bind_value :: "json \<Rightarrow> failure + val" where
  "bind_value j =
     (case j of
        JNull \<Rightarrow> Inr VNull
      | JNum n \<Rightarrow> if - (2 ^ 31) \<le> n \<and> n < 2 ^ 31 then Inr (VInt n) else Inl Unmodelled
      | JStr s \<Rightarrow> Inr (VText s)
      | JBool b \<Rightarrow> Inl (Thrown TypeError))"

text \<open>The values for \<open>n\<close> placeholders, bound one after the other.\<close>

fun bind_params :: "nat \<Rightarrow> json list \<Rightarrow> failure + val list" where
  "bind_params n [] = (if n = 0 then Inr [] else Inl (Thrown RangeError))"
| "bind_params n (j # js) =
     (case bind_value j of
        Inl e \<Rightarrow> Inl e
      | Inr v \<Rightarrow>
          if n = 0 then Inl (Thrown RangeError)
          else (case bind_params (n - 1) js of Inl e \<Rightarrow> Inl e | Inr vs \<Rightarrow> Inr (v # vs)))"

text \<open>
  Column affinity: a \<^verbatim>\<open>TEXT\<close> column turns a number into its decimal text, every other
  declared type turns text that is a number into the number. The same conversion is
  applied to a bound value that is compared with a column.
\<close>

definition store :: "coltype \<Rightarrow> val \<Rightarrow> val option" where
  "store t v =
     (case v of
        VNull \<Rightarrow> Some VNull
      | VInt n \<Rightarrow> Some (if t = TEXT then VText (show_int n) else VInt n)
      | VText s \<Rightarrow> if t = TEXT then Some (VText s) else numeric_affinity s)"

text \<open>What a \<^verbatim>\<open>TEXT\<close> column stores for a value.\<close>

definition as_text :: "val \<Rightarrow> val" where
  "as_text v = (case v of VNull \<Rightarrow> VNull | VInt n \<Rightarrow> VText (show_int n) | VText s \<Rightarrow> VText s)"

definition default_val :: "string \<Rightarrow> dflt \<Rightarrow> val" where
  "default_val now d =
     (case d of DNone \<Rightarrow> VNull | DText s \<Rightarrow> VText s | DInt n \<Rightarrow> VInt n | DNow \<Rightarrow> VText now)"

subsection \<open>Constraints\<close>

definition unique_ok :: "column list \<Rightarrow> string list \<Rightarrow> row list \<Rightarrow> row \<Rightarrow> bool" where
  "unique_ok cols assigned others r =
     list_all (\<lambda>c. \<not> cunique c \<or> cname c \<notin> set assigned \<or> col_val r (cname c) = VNull
                   \<or> col_val r (cname c) \<notin> set (map (\<lambda>x. col_val x (cname c)) others)) cols"

definition fk_child_ok :: "db \<Rightarrow> column list \<Rightarrow> string list \<Rightarrow> row \<Rightarrow> bool" where
  "fk_child_ok d cols assigned r =
     list_all (\<lambda>c. case cref c of
                     None \<Rightarrow> True
                   | Some p \<Rightarrow> cname c \<notin> set assigned \<or> col_val r (cname c) = VNull
                              \<or> col_val r (cname c) \<in> set (map row_id (tbl d p))) cols"

definition fk_parent_ok :: "db \<Rightarrow> string \<Rightarrow> val \<Rightarrow> bool" where
  "fk_parent_ok d t old_id =
     list_all (\<lambda>(ct, cc, p). p \<noteq> t \<or> old_id \<notin> set (map (\<lambda>x. col_val x cc) (tbl d ct)))
       references"

text \<open>
  A statement is \<open>unconstrained\<close> when it sets neither \<^verbatim>\<open>id\<close> nor a column that is
  unique or refers to another table.
\<close>

definition unconstrained :: "string \<Rightarrow> string list \<Rightarrow> bool" where
  "unconstrained t assigned =
     (''id'' \<notin> set assigned
      \<and> list_all (\<lambda>c. cname c \<notin> set assigned \<or> (\<not> cunique c \<and> cref c = None)) (columns_of t))"

text \<open>
  The checks on a row written to table \<open>t\<close>: \<open>old\<close> is the row it replaces (none for an
  insert), \<open>others\<close> the other rows of the table, \<open>assigned\<close> the columns the statement
  sets. SQLite checks a constraint only when one of its columns is set.
\<close>

definition check_row ::
  "db \<Rightarrow> string \<Rightarrow> string list \<Rightarrow> row list \<Rightarrow> row option \<Rightarrow> row \<Rightarrow> sqlite_code option" where
  "check_row d t assigned others old r =
     (let cols = columns_of t;
          moved = (''id'' \<in> set assigned \<and> (case old of None \<Rightarrow> True
                                               | Some r0 \<Rightarrow> row_id r0 \<noteq> row_id r))
      in if moved \<and> (case row_id r of VInt n \<Rightarrow> False | _ \<Rightarrow> True)
           then Some SQLITE_MISMATCH
         else if moved \<and> row_id r \<in> set (map row_id others)
           then Some SQLITE_CONSTRAINT_PRIMARYKEY
         else if \<not> unique_ok cols assigned others r
           then Some SQLITE_CONSTRAINT_UNIQUE
         else if foreign_keys d \<and> \<not> fk_child_ok d cols assigned r
           then Some SQLITE_CONSTRAINT_FOREIGNKEY
         else if foreign_keys d \<and> moved
                 \<and> (case old of None \<Rightarrow> False | Some r0 \<Rightarrow> \<not> fk_parent_ok d t (row_id r0))
           then Some SQLITE_CONSTRAINT_FOREIGNKEY
         else None)"

subsection \<open>Running a statement\<close>

text \<open>
  \<^verbatim>\<open>INSERT\<close>: a column of the statement takes its bound value (the first one, when a
  column is named twice), any other column its default. A NULL \<^verbatim>\<open>id\<close> is assigned by
  \<^verbatim>\<open>AUTOINCREMENT\<close>: one more than the largest \<^verbatim>\<open>id\<close> the table has ever held.
\<close>

fun build_row :: "string \<Rightarrow> column list \<Rightarrow> (string \<rightharpoonup> val) \<Rightarrow> row option" where
  "build_row now [] given = Some []"
| "build_row now (c # cs) given =
     (case (case given (cname c) of
              Some v \<Rightarrow> store (ctype c) v
            | None \<Rightarrow> Some (default_val now (cdefault c))) of
        None \<Rightarrow> None
      | Some x \<Rightarrow> (case build_row now cs given of
                    None \<Rightarrow> None | Some r \<Rightarrow> Some ((cname c, x) # r)))"

definition int_ids :: "row list \<Rightarrow> int list" where
  "int_ids rows = concat (map (\<lambda>r. case row_id r of VInt n \<Rightarrow> [n] | _ \<Rightarrow> []) rows)"

definition next_id :: "db \<Rightarrow> string \<Rightarrow> int" where
  "next_id d t = foldr max (int_ids (tbl d t)) (sqlite_sequence d t) + 1"

definition exec_insert ::
  "string \<Rightarrow> db \<Rightarrow> string \<Rightarrow> string list \<Rightarrow> val list \<Rightarrow> failure + (db \<times> int)" where
  "exec_insert now d t cs vs =
     (case build_row now (columns_of t) (map_of (zip cs vs)) of
        None \<Rightarrow> Inl Unmodelled
      | Some r0 \<Rightarrow>
          (case (case row_id r0 of
                   VNull \<Rightarrow> if next_id d t < 2 ^ 63 then Inr (next_id d t)
                            else Inl SQLITE_FULL
                 | VInt n \<Rightarrow> Inr n
                 | VText x \<Rightarrow> Inl SQLITE_MISMATCH) of
             Inl e \<Rightarrow> Inl (Thrown (SqliteError e))
           | Inr n \<Rightarrow>
               (let r = put ''id'' (VInt n) r0 in
                case check_row d t (map cname (columns_of t)) (tbl d t) None r of
                  Some e \<Rightarrow> Inl (Thrown (SqliteError e))
                | None \<Rightarrow>
                    Inr (d\<lparr>tbl := (tbl d)(t := tbl d t @ [r]),
                           sqlite_sequence :=
                             (sqlite_sequence d)(t := max (sqlite_sequence d t) n)\<rparr>, n))))"

text \<open>
  \<^verbatim>\<open>UPDATE t SET ... WHERE id = ?\<close>: the assignments take the bound values in order, the
  last bound value is the \<^verbatim>\<open>id\<close>. When a column is assigned twice the last assignment
  wins. A failed check leaves the database as it was.
\<close>

fun eval_assigns ::
  "string \<Rightarrow> column list \<Rightarrow> (string \<times> rhs) list \<Rightarrow> val list \<Rightarrow> row option" where
  "eval_assigns now cols [] vs = Some []"
| "eval_assigns now cols ((c, e) # as) vs =
     (case (case e of
              RParam \<Rightarrow> (case vs of v # vs' \<Rightarrow> store (type_of cols c) v | [] \<Rightarrow> None)
            | RNow \<Rightarrow> Some (VText now)
            | RNull \<Rightarrow> Some VNull
            | RInt n \<Rightarrow> store (type_of cols c) (VInt n)) of
        None \<Rightarrow> None
      | Some x \<Rightarrow>
          (case eval_assigns now cols as (if e = RParam then drop 1 vs else vs) of
             None \<Rightarrow> None | Some r \<Rightarrow> Some ((c, x) # r)))"

definition apply_assigns :: "row \<Rightarrow> row \<Rightarrow> row" where
  "apply_assigns sets r = foldl (\<lambda>acc (c, v). put c v acc) r sets"

definition id_matches :: "val \<Rightarrow> row \<Rightarrow> bool" where
  "id_matches v r = (v \<noteq> VNull \<and> row_id r = v)"

definition exec_update ::
  "string \<Rightarrow> db \<Rightarrow> string \<Rightarrow> (string \<times> rhs) list \<Rightarrow> val list \<Rightarrow> failure + (db \<times> nat)" where
  "exec_update now d t as vs =
     (case vs of
        [] \<Rightarrow> Inl Unmodelled
      | _ \<Rightarrow>
        (case (eval_assigns now (columns_of t) as (butlast vs), store INTEGER (last vs)) of
           (Some sets, Some idv) \<Rightarrow>
             (let hit = filter (id_matches idv) (tbl d t);
                  others = filter (\<lambda>r. \<not> id_matches idv r) (tbl d t);
                  errs = List.map_filter
                           (\<lambda>r. check_row d t (map fst sets) others (Some r) (apply_assigns sets r))
                           hit
              in case errs of
                   e # _ \<Rightarrow> Inl (Thrown (SqliteError e))
                 | [] \<Rightarrow>
                     Inr (d\<lparr>tbl := (tbl d)(t :=
                              map (\<lambda>r. if id_matches idv r then apply_assigns sets r else r)
                                (tbl d t))\<rparr>,
                          length hit))
         | _ \<Rightarrow> Inl Unmodelled))"

subsubsection \<open>LIKE and ORDER BY\<close>

text \<open>
  \<^verbatim>\<open>LIKE\<close>: \<^verbatim>\<open>%\<close> stands for any run of characters, \<^verbatim>\<open>_\<close> for one character (one UTF-8
  sequence), and letters of ASCII match without regard to case.
\<close>

definition is_cont :: "char \<Rightarrow> bool" where
  "is_cont c = (128 \<le> (of_char c :: nat) \<and> (of_char c :: nat) < 192)"

function like :: "string \<Rightarrow> string \<Rightarrow> bool" where
  "like [] s = (s = [])"
| "like (p # ps) [] = (p = CHR ''%'' \<and> like ps [])"
| "like (p # ps) (c # cs) =
     (if p = CHR ''%'' then like ps (c # cs) \<or> like (p # ps) cs
      else if p = CHR ''_'' then like ps (dropWhile is_cont cs)
      else lower_char p = lower_char c \<and> like ps cs)"
  by pat_completeness auto
termination
  by (relation "measure (\<lambda>(p, s). length p + length s)")
     (auto simp: less_Suc_eq_le length_dropWhile_le intro: le_SucI trans_le_add2)

definition text_of :: "val \<Rightarrow> string option" where
  "text_of v = (case v of VNull \<Rightarrow> None | VInt n \<Rightarrow> Some (show_int n) | VText s \<Rightarrow> Some s)"

definition like_val :: "val \<Rightarrow> val \<Rightarrow> bool" where
  "like_val pat v =
     (case (text_of pat, text_of v) of (Some p, Some s) \<Rightarrow> like p s | _ \<Rightarrow> False)"

text \<open>The order of values: NULL, then numbers, then text by its bytes.\<close>

fun bytes_less :: "string \<Rightarrow> string \<Rightarrow> bool" where
  "bytes_less [] [] = False"
| "bytes_less [] (b # bs) = True"
| "bytes_less (a # as) [] = False"
| "bytes_less (a # as) (b # bs) =
     ((of_char a :: nat) < of_char b \<or> (a = b \<and> bytes_less as bs))"

fun val_less :: "val \<Rightarrow> val \<Rightarrow> bool" where
  "val_less VNull v = (v \<noteq> VNull)"
| "val_less (VInt a) (VInt b) = (a < b)"
| "val_less (VInt a) (VText t) = True"
| "val_less (VInt a) VNull = False"
| "val_less (VText s) (VText t) = bytes_less s t"
| "val_less (VText s) v = False"

text \<open>
  \<^verbatim>\<open>ORDER BY c DESC\<close> as a stable insertion sort over the rows in the order of the scan
  (ascending \<^verbatim>\<open>id\<close>).
\<close>

fun insert_desc :: "string \<Rightarrow> row \<Rightarrow> row list \<Rightarrow> row list" where
  "insert_desc c r [] = [r]"
| "insert_desc c r (x # xs) =
     (if val_less (col_val r c) (col_val x c) then x # insert_desc c r xs else r # x # xs)"

definition order_desc :: "string \<Rightarrow> row list \<Rightarrow> row list" where
  "order_desc c rows = foldr (insert_desc c) rows []"

definition scan :: "row list \<Rightarrow> row list" where
  "scan rows = sort_key (\<lambda>r. case row_id r of VInt n \<Rightarrow> n | _ \<Rightarrow> 0) rows"

fun eval_conds :: "column list \<Rightarrow> cond list \<Rightarrow> val list \<Rightarrow> (row \<Rightarrow> bool) option" where
  "eval_conds cols [] vs = Some (\<lambda>r. True)"
| "eval_conds cols (CEq c # cs) (v # vs) =
     (case (store (type_of cols c) v, eval_conds cols cs vs) of
        (Some x, Some rest) \<Rightarrow> Some (\<lambda>r. x \<noteq> VNull \<and> col_val r c = x \<and> rest r)
      | _ \<Rightarrow> None)"
| "eval_conds cols (CLikeOr a b # cs) (v # w # vs) =
     (case eval_conds cols cs vs of
        Some rest \<Rightarrow>
          Some (\<lambda>r. (like_val v (col_val r a) \<or> like_val w (col_val r b)) \<and> rest r)
      | None \<Rightarrow> None)"
| "eval_conds cols cs vs = None"

definition exec_select ::
  "db \<Rightarrow> string \<Rightarrow> cond list \<Rightarrow> string \<Rightarrow> val list \<Rightarrow> failure + row list" where
  "exec_select d t cs oc vs =
     (case eval_conds (columns_of t) cs vs of
        None \<Rightarrow> Inl Unmodelled
      | Some p \<Rightarrow> Inr (order_desc oc (filter p (scan (tbl d t)))))"

text \<open>The placeholders of a statement.\<close>

definition placeholders_of :: "stmt \<Rightarrow> nat" where
  "placeholders_of st =
     (case st of
        Insert t cs n \<Rightarrow> n
      | Update t as \<Rightarrow> length (filter (\<lambda>(c, e). e = RParam) as) + 1
      | Select t cs oc \<Rightarrow> sum_list (map (\<lambda>c. case c of CEq x \<Rightarrow> 1 | CLikeOr a b \<Rightarrow> 2) cs))"

text \<open>\<^verbatim>\<open>stmt.run(...values)\<close>: the database after the statement, with \<^verbatim>\<open>lastInsertRowid\<close>.\<close>

definition run :: "string \<Rightarrow> db \<Rightarrow> stmt \<Rightarrow> json list \<Rightarrow> failure + (db \<times> int)" where
  "run now d st js =
     (case bind_params (placeholders_of st) js of
        Inl e \<Rightarrow> Inl e
      | Inr vs \<Rightarrow>
          (case st of
             Insert t cs n \<Rightarrow> exec_insert now d t cs vs
           | Update t as \<Rightarrow>
               (case exec_update now d t as vs of
                  Inl e \<Rightarrow> Inl e | Inr (d', n) \<Rightarrow> Inr (d', 0))
           | Select t cs oc \<Rightarrow> Inl (Thrown TypeError)))"

text \<open>\<^verbatim>\<open>stmt.all(...params)\<close>: the rows of a \<^verbatim>\<open>SELECT\<close>.\<close>

definition all_rows :: "db \<Rightarrow> stmt \<Rightarrow> json list \<Rightarrow> failure + row list" where
  "all_rows d st js =
     (case bind_params (placeholders_of st) js of
        Inl e \<Rightarrow> Inl e
      | Inr vs \<Rightarrow>
          (case st of
             Select t cs oc \<Rightarrow> exec_select d t cs oc vs
           | _ \<Rightarrow> Inl (Thrown TypeError)))"

section \<open>The routes\<close>

text \<open>
  A handler answers with \<^verbatim>\<open>res.json\<close> (status 200 unless \<^verbatim>\<open>res.status\<close> sets another),
  or it throws; Express answers a thrown error with status 500. The body of a request is
  a JSON object, given as the list of its keys and values in the order of
  \<^verbatim>\<open>Object.keys\<close>; its values are scalars (arrays and objects as values are not
  modelled). The clock \<open>now\<close> is the text of \<^verbatim>\<open>CURRENT_TIMESTAMP\<close>.
\<close>

datatype body = BError string | BId int | BSuccess | BRows "row list"

datatype response = Json nat body | Failed failure

definition status_code :: "response \<Rightarrow> nat option" where
  "status_code r =
     (case r of Json n b \<Rightarrow> Some n | Failed (Thrown e) \<Rightarrow> Some 500 | Failed Unmodelled \<Rightarrow> None)"

record query =
  query_q :: "string option"
  query_status :: "string option"
  query_owner_id :: "string option"
  query_is_deleted :: "string option"

definition no_query :: query where
  "no_query = \<lparr>query_q = None, query_status = None, query_owner_id = None,
                query_is_deleted = None\<rparr>"

definition truthy :: "string option \<Rightarrow> bool" where
  "truthy p = (case p of None \<Rightarrow> False | Some s \<Rightarrow> s \<noteq> [])"

definition validModules :: "string list" where
  "validModules = [''leads'', ''customers'', ''opportunities'', ''contracts'', ''activities'']"

definition counted :: "db \<Rightarrow> db" where
  "counted d = d\<lparr>prepared := Suc (prepared d)\<rparr>"

subsection \<open>\<^verbatim>\<open>GET /api/:module\<close>\<close>

definition list_sql :: "string \<Rightarrow> query \<Rightarrow> string" where
  "list_sql module qy =
     ''SELECT * FROM '' @ module @ '' WHERE is_deleted = ?''
     @ (if truthy (query_q qy) then '' AND (name LIKE ? OR contact_person LIKE ?)'' else [])
     @ (if truthy (query_status qy) then '' AND status = ?'' else [])
     @ '' ORDER BY created_at DESC''"

definition list_params :: "query \<Rightarrow> json list" where
  "list_params qy =
     [case query_is_deleted qy of None \<Rightarrow> JNum 0 | Some s \<Rightarrow> JStr s]
     @ (case query_q qy of
          Some s \<Rightarrow> if s \<noteq> [] then [JStr (''%'' @ s @ ''%''), JStr (''%'' @ s @ ''%'')] else []
        | None \<Rightarrow> [])
     @ (case query_status qy of Some s \<Rightarrow> if s \<noteq> [] then [JStr s] else [] | None \<Rightarrow> [])"

definition list_api :: "db \<Rightarrow> string \<Rightarrow> query \<Rightarrow> response \<times> db" where
  "list_api d module qy =
     (if module \<notin> set validModules then (Json 404 (BError ''Invalid module''), d)
      else (case prepare (list_sql module qy) of
              Inl e \<Rightarrow> (Failed e, counted d)
            | Inr st \<Rightarrow>
                (case all_rows d st (list_params qy) of
                   Inl e \<Rightarrow> (Failed e, counted d)
                 | Inr rows \<Rightarrow> (Json 200 (BRows rows), counted d))))"

subsection \<open>\<^verbatim>\<open>POST /api/:module\<close>\<close>

definition create_sql :: "string \<Rightarrow> string list \<Rightarrow> string" where
  "create_sql module field_names =
     ''INSERT INTO '' @ module @ '' ('' @ join '','' field_names @ '') VALUES (''
     @ join '','' (map (\<lambda>f. ''?'') field_names) @ '')''"

definition create_api ::
  "string \<Rightarrow> db \<Rightarrow> string \<Rightarrow> (string \<times> json) list \<Rightarrow> response \<times> db" where
  "create_api now d module req_body =
     (case prepare (create_sql module (map fst req_body)) of
        Inl e \<Rightarrow> (Failed e, counted d)
      | Inr st \<Rightarrow>
          (case run now (counted d) st (map snd req_body) of
             Inl e \<Rightarrow> (Failed e, counted d)
           | Inr (d', n) \<Rightarrow> (Json 200 (BId n), d')))"

subsection \<open>\<^verbatim>\<open>PUT /api/:module/:id\<close>\<close>

definition update_sql :: "string \<Rightarrow> string list \<Rightarrow> string" where
  "update_sql module field_names =
     ''UPDATE '' @ module @ '' SET '' @ join '','' (map (\<lambda>f. f @ '' = ?'') field_names)
     @ '', updated_at = CURRENT_TIMESTAMP WHERE id = ?''"

definition update_api ::
  "string \<Rightarrow> db \<Rightarrow> string \<Rightarrow> string \<Rightarrow> (string \<times> json) list \<Rightarrow> response \<times> db" where
  "update_api now d module ident req_body =
     (case prepare (update_sql module (map fst req_body)) of
        Inl e \<Rightarrow> (Failed e, counted d)
      | Inr st \<Rightarrow>
          (case run now (counted d) st (map snd req_body @ [JStr ident]) of
             Inl e \<Rightarrow> (Failed e, counted d)
           | Inr (d', n) \<Rightarrow> (Json 200 BSuccess, d')))"

text \<open>What the statement does to a row when the body is \<^verbatim>\<open>{status: x}\<close>.\<close>

definition set_status :: "string \<Rightarrow> val \<Rightarrow> row \<Rightarrow> row" where
  "set_status now x r = put ''updated_at'' (VText now) (put ''status'' (as_text x) r)"

text \<open>
  A body that the statement of this route accepts: it is not empty, its keys are plain
  identifiers that name columns of the module, and its values can be bound and stored.
\<close>

definition acceptable :: "string \<Rightarrow> (string \<times> json) list \<Rightarrow> bool" where
  "acceptable module req_body =
     (req_body \<noteq> []
      \<and> list_all (\<lambda>(k, j). plain_ident k
                     \<and> (case (find_column (columns_of module) k, bind_value j) of
                          (Some c, Inr v) \<Rightarrow> store (ctype c) v \<noteq> None
                        | _ \<Rightarrow> False)) req_body)"

subsection \<open>\<^verbatim>\<open>DELETE /api/:module/:id\<close> and \<^verbatim>\<open>POST /api/:module/:id/restore\<close>\<close>

definition soft_delete_sql :: "string \<Rightarrow> string" where
  "soft_delete_sql module =
     ''UPDATE '' @ module @ '' SET is_deleted = 1, deleted_at = CURRENT_TIMESTAMP WHERE id = ?''"

definition restore_sql :: "string \<Rightarrow> string" where
  "restore_sql module =
     ''UPDATE '' @ module @ '' SET is_deleted = 0, deleted_at = NULL WHERE id = ?''"

definition run_by_id :: "string \<Rightarrow> db \<Rightarrow> string \<Rightarrow> string \<Rightarrow> response \<times> db" where
  "run_by_id now d sql ident =
     (case prepare sql of
        Inl e \<Rightarrow> (Failed e, counted d)
      | Inr st \<Rightarrow>
          (case run now (counted d) st [JStr ident] of
             Inl e \<Rightarrow> (Failed e, counted d)
           | Inr (d', n) \<Rightarrow> (Json 200 BSuccess, d')))"

definition soft_delete_api :: "string \<Rightarrow> db \<Rightarrow> string \<Rightarrow> string \<Rightarrow> response \<times> db" where
  "soft_delete_api now d module ident = run_by_id now d (soft_delete_sql module) ident"

definition restore_api :: "string \<Rightarrow> db \<Rightarrow> string \<Rightarrow> string \<Rightarrow> response \<times> db" where
  "restore_api now d module ident = run_by_id now d (restore_sql module) ident"

text \<open>What the two statements do to a row.\<close>

definition mark_deleted :: "string \<Rightarrow> row \<Rightarrow> row" where
  "mark_deleted now r = put ''deleted_at'' (VText now) (put ''is_deleted'' (VInt 1) r)"

definition mark_restored :: "row \<Rightarrow> row" where
  "mark_restored r = put ''deleted_at'' VNull (put ''is_deleted'' (VInt 0) r)"

subsection \<open>\<^verbatim>\<open>GET /api/comments/:type/:id\<close>\<close>

text \<open>
  The statement of this route is fixed text:
  \<^verbatim>\<open>SELECT c.*, u.username FROM comments c JOIN users u ON c.user_id = u.id
  WHERE entity_type = ? AND entity_id = ? ORDER BY created_at DESC\<close>.
  It is modelled by what it computes: the inner join of the comments of the pair with
  the users, each row being the comment followed by \<^verbatim>\<open>username\<close>.
\<close>

definition joined :: "row list \<Rightarrow> row \<Rightarrow> row list" where
  "joined users c =
     map (\<lambda>u. c @ [(''username'', col_val u ''username'')])
       (filter (\<lambda>u. col_val c ''user_id'' \<noteq> VNull \<and> col_val c ''user_id'' = row_id u) users)"

text \<open>Rows in descending order of \<^verbatim>\<open>created_at\<close>.\<close>

definition newest_first :: "row list \<Rightarrow> bool" where
  "newest_first rows =
     sorted_wrt (\<lambda>a b. \<not> val_less (col_val a ''created_at'') (col_val b ''created_at'')) rows"

definition comments_api :: "db \<Rightarrow> string \<Rightarrow> string \<Rightarrow> response \<times> db" where
  "comments_api d entity_type ident =
     (case store INTEGER (VText ident) of
        None \<Rightarrow> (Failed Unmodelled, counted d)
      | Some v \<Rightarrow>
          (Json 200 (BRows (order_desc ''created_at''
             (concat (map (joined (scan (tbl d ''users'')))
                (filter (\<lambda>c. col_val c ''entity_type'' = VText entity_type
                              \<and> v \<noteq> VNull \<and> col_val c ''entity_id'' = v)
                   (scan (tbl d ''comments''))))))),
           counted d))"

section \<open>Startup: the seed\<close>

text \<open>
  The schema is created by \<^verbatim>\<open>CREATE TABLE IF NOT EXISTS\<close>, which leaves an existing table
  as it is; the tables are those of the schema above. Then the seed block runs: it counts
  the roles and, when there are none, inserts the fixed rows one statement after the
  other. An error of a statement is not caught: the process stops with the rows before it
  already stored.
\<close>

definition role_super_admin :: string where
  "role_super_admin =
     [CHR 0xE8, CHR 0xB6, CHR 0x85, CHR 0xE7, CHR 0xBA, CHR 0xA7, CHR 0xE7, CHR 0xAE, CHR 0xA1,
      CHR 0xE7, CHR 0x90, CHR 0x86, CHR 0xE5, CHR 0x91, CHR 0x98]"

definition role_dept_admin :: string where
  "role_dept_admin =
     [CHR 0xE9, CHR 0x83, CHR 0xA8, CHR 0xE9, CHR 0x97, CHR 0xA8, CHR 0xE7, CHR 0xAE, CHR 0xA1,
      CHR 0xE7, CHR 0x90, CHR 0x86, CHR 0xE5, CHR 0x91, CHR 0x98]"

definition role_employee :: string where
  "role_employee =
     [CHR 0xE6, CHR 0x99, CHR 0xAE, CHR 0xE9, CHR 0x80, CHR 0x9A, CHR 0xE5, CHR 0x91, CHR 0x98,
      CHR 0xE5, CHR 0xB7, CHR 0xA5]"

definition role_read_only :: string where
  "role_read_only =
     [CHR 0xE5, CHR 0x8F, CHR 0xAA, CHR 0xE8, CHR 0xAF, CHR 0xBB, CHR 0xE7, CHR 0x94, CHR 0xA8,
      CHR 0xE6, CHR 0x88, CHR 0xB7]"

definition dept_headquarters :: string where
  "dept_headquarters = [CHR 0xE6, CHR 0x80, CHR 0xBB, CHR 0xE9, CHR 0x83, CHR 0xA8]"

definition source_website :: string where
  "source_website = [CHR 0xE5, CHR 0xAE, CHR 0x98, CHR 0xE7, CHR 0xBD, CHR 0x91]"

definition source_referral :: string where
  "source_referral = [CHR 0xE6, CHR 0x8E, CHR 0xA8, CHR 0xE8, CHR 0x8D, CHR 0x90]"

definition status_following :: string where
  "status_following =
     [CHR 0xE8, CHR 0xB7, CHR 0x9F, CHR 0xE8, CHR 0xBF, CHR 0x9B, CHR 0xE4, CHR 0xB8, CHR 0xAD]"

definition type_enterprise :: string where
  "type_enterprise = [CHR 0xE4, CHR 0xBC, CHR 0x81, CHR 0xE4, CHR 0xB8, CHR 0x9A]"

definition industry_logistics :: string where
  "industry_logistics = [CHR 0xE7, CHR 0x89, CHR 0xA9, CHR 0xE6, CHR 0xB5, CHR 0x81]"

definition stage_initial_contact :: string where
  "stage_initial_contact =
     [CHR 0xE5, CHR 0x88, CHR 0x9D, CHR 0xE6, CHR 0xAD, CHR 0xA5, CHR 0xE6, CHR 0xB2, CHR 0x9F,
      CHR 0xE9, CHR 0x80, CHR 0x9A]"

text \<open>\<^verbatim>\<open>JSON.stringify\<close> of an object with one key whose value is \<^verbatim>\<open>true\<close>.\<close>

definition permission :: "string \<Rightarrow> string" where
  "permission k = ''{'' @ [CHR 0x22] @ k @ [CHR 0x22] @ '':true}''"

definition insertRole :: string where
  "insertRole = ''INSERT INTO roles (name, level, permissions) VALUES (?, ?, ?)''"

definition insertUser :: string where
  "insertUser =
     ''INSERT INTO users (username, password, role_id, department) VALUES (?, ?, ?, ?)''"

definition insertLead :: string where
  "insertLead =
     ''INSERT INTO leads (name, contact_person, phone, email, source, level, status, owner_id)''
     @ '' VALUES (?, ?, ?, ?, ?, ?, ?, ?)''"

definition insertCustomer :: string where
  "insertCustomer =
     ''INSERT INTO customers (name, type, industry, contact_person, phone, address, level,''
     @ '' status, owner_id) VALUES (?, ?, ?, ?, ?, ?, ?, ?, ?)''"

definition insertOpportunity :: string where
  "insertOpportunity =
     ''INSERT INTO opportunities (name, customer_id, stage, probability, amount,''
     @ '' expected_date, owner_id) VALUES (?, ?, ?, ?, ?, ?, ?)''"

definition seed_roles :: "json list list" where
  "seed_roles =
     [ [JStr role_super_admin, JNum 1, JStr (permission ''all'')],
      [JStr role_dept_admin, JNum 2, JStr (permission ''dept'')],
      [JStr role_employee, JNum 3, JStr (permission ''self'')],
      [JStr role_read_only, JNum 4, JStr (permission ''read'')] ]"

definition seed_leads :: "json list list" where
  "seed_leads =
     [ [JStr ''Tech Solutions Inc'', JStr ''Alice Smith'', JStr ''123-456-7890'',
       JStr ''alice@tech.com'', JStr source_website, JStr ''A'', JStr status_following, JNum 1],
      [JStr ''Green Energy Co'', JStr ''Bob Brown'', JStr ''098-765-4321'',
       JStr ''bob@green.com'', JStr source_referral, JStr ''B'', JStr status_not_followed,
       JNum 1] ]"

definition seed_customers :: "json list list" where
  "seed_customers =
     [ [JStr ''Global Logistics'', JStr type_enterprise, JStr industry_logistics,
       JStr ''Charlie Davis'', JStr ''555-0199'', JStr ''123 Main St'', JStr ''VIP'',
       JStr status_cooperating, JNum 1] ]"

definition seed_opportunities :: "json list list" where
  "seed_opportunities =
     [ [JStr ''Q1 Software Upgrade'', JNum 1, JStr stage_initial_contact, JNum 20, JNum 50000,
       JStr ''2026-06-01'', JNum 1] ]"

fun run_each :: "string \<Rightarrow> db \<Rightarrow> stmt \<Rightarrow> json list list \<Rightarrow> failure option \<times> db" where
  "run_each now d st [] = (None, d)"
| "run_each now d st (js # rest) =
     (case run now d st js of
        Inl e \<Rightarrow> (Some e, d)
      | Inr (d', n) \<Rightarrow> run_each now d' st rest)"

text \<open>One prepared statement, run once for each list of values.\<close>

definition seed_with :: "string \<Rightarrow> string \<Rightarrow> json list list \<Rightarrow> db \<Rightarrow> failure option \<times> db" where
  "seed_with now sql rows d =
     (case prepare sql of
        Inl e \<Rightarrow> (Some e, counted d)
      | Inr st \<Rightarrow> run_each now (counted d) st rows)"

definition and_then ::
  "failure option \<times> db \<Rightarrow> (db \<Rightarrow> failure option \<times> db) \<Rightarrow> failure option \<times> db" where
  "and_then r f = (case r of (Some e, d) \<Rightarrow> (Some e, d) | (None, d) \<Rightarrow> f d)"

definition val_json :: "val \<Rightarrow> json" where
  "val_json v = (case v of VNull \<Rightarrow> JNull | VInt n \<Rightarrow> JNum n | VText s \<Rightarrow> JStr s)"

text \<open>
  \<^verbatim>\<open>SELECT id FROM roles WHERE name = ...\<close> for the first role, then the user that refers
  to it; reading \<^verbatim>\<open>adminRole.id\<close> of no row is a \<^verbatim>\<open>TypeError\<close>.
\<close>

definition seed_admin :: "string \<Rightarrow> db \<Rightarrow> failure option \<times> db" where
  "seed_admin now d =
     (case find (\<lambda>r. col_val r ''name'' = VText role_super_admin) (scan (tbl d ''roles'')) of
        None \<Rightarrow> (Some (Thrown TypeError), counted d)
      | Some adminRole \<Rightarrow>
          seed_with now insertUser
            [ [JStr ''admin'', JStr ''admin123'', val_json (row_id adminRole),
              JStr dept_headquarters] ]
            (counted d))"

definition startup :: "string \<Rightarrow> db \<Rightarrow> failure option \<times> db" where
  "startup now d =
     (if length (tbl d ''roles'') = 0
      then and_then (and_then (and_then (and_then
             (seed_with now insertRole seed_roles (counted d))
             (seed_admin now))
             (seed_with now insertLead seed_leads))
             (seed_with now insertCustomer seed_customers))
             (seed_with now insertOpportunity seed_opportunities)
      else (None, counted d))"

definition fresh_db :: "bool \<Rightarrow> db" where
  "fresh_db fk = \<lparr>tbl = (\<lambda>t. []), sqlite_sequence = (\<lambda>t. 0), foreign_keys = fk, prepared = 0\<rparr>"

text \<open>The rows of the seed, as the tables hold them after the first start.\<close>

definition seeded_role :: "int \<Rightarrow> string \<Rightarrow> string \<Rightarrow> row" where
  "seeded_role i n p =
     [(''id'', VInt i), (''name'', VText n), (''level'', VInt i),
      (''permissions'', VText (permission p))]"

definition seeded_lead ::
  "string \<Rightarrow> int \<Rightarrow> string \<Rightarrow> string \<Rightarrow> string \<Rightarrow> string \<Rightarrow> string \<Rightarrow> string \<Rightarrow> string
    \<Rightarrow> row" where
  "seeded_lead now i n person phone email src lvl st =
     [(''id'', VInt i), (''name'', VText n), (''contact_person'', VText person),
      (''phone'', VText phone), (''email'', VText email), (''source'', VText src),
      (''level'', VText lvl), (''status'', VText st), (''owner_id'', VInt 1),
      (''created_at'', VText now), (''updated_at'', VText now), (''is_deleted'', VInt 0),
      (''deleted_at'', VNull)]"

definition seed_rows :: "string \<Rightarrow> string \<Rightarrow> row list" where
  "seed_rows now t =
     (if t = ''roles''
        then [seeded_role 1 role_super_admin ''all'', seeded_role 2 role_dept_admin ''dept'',
              seeded_role 3 role_employee ''self'', seeded_role 4 role_read_only ''read'']
      else if t = ''users''
        then [ [(''id'', VInt 1), (''username'', VText ''admin''),
               (''password'', VText ''admin123''), (''role_id'', VInt 1),
               (''department'', VText dept_headquarters)] ]
      else if t = ''leads''
        then [seeded_lead now 1 ''Tech Solutions Inc'' ''Alice Smith'' ''123-456-7890''
                ''alice@tech.com'' source_website ''A'' status_following,
              seeded_lead now 2 ''Green Energy Co'' ''Bob Brown'' ''098-765-4321''
                ''bob@green.com'' source_referral ''B'' status_not_followed]
      else if t = ''customers''
        then [ [(''id'', VInt 1), (''name'', VText ''Global Logistics''),
               (''type'', VText type_enterprise), (''industry'', VText industry_logistics),
               (''contact_person'', VText ''Charlie Davis''), (''phone'', VText ''555-0199''),
               (''address'', VText ''123 Main St''), (''level'', VText ''VIP''),
               (''status'', VText status_cooperating), (''owner_id'', VInt 1),
               (''created_at'', VText now), (''updated_at'', VText now),
               (''is_deleted'', VInt 0), (''deleted_at'', VNull)] ]
      else if t = ''opportunities''
        then [ [(''id'', VInt 1), (''name'', VText ''Q1 Software Upgrade''),
               (''customer_id'', VInt 1), (''stage'', VText stage_initial_contact),
               (''probability'', VInt 20), (''amount'', VInt 50000),
               (''expected_date'', VText ''2026-06-01''), (''description'', VNull),
               (''owner_id'', VInt 1), (''created_at'', VText now),
               (''updated_at'', VText now), (''is_deleted'', VInt 0),
               (''deleted_at'', VNull)] ]
      else [])"

text \<open>The database after the first start.\<close>

definition seeded_db :: "string \<Rightarrow> bool \<Rightarrow> db" where
  "seeded_db now fk = snd (startup now (fresh_db fk))"

text \<open>The seeded database with one comment on lead 1, posted by the user \<open>uid\<close>.\<close>

definition sample_comment :: "val \<Rightarrow> row" where
  "sample_comment uid =
     [(''id'', VInt 1), (''entity_type'', VText ''leads''), (''entity_id'', VInt 1),
      (''user_id'', uid), (''content'', VText ''hi''), (''parent_id'', VNull),
      (''created_at'', VText ''2026-01-02 00:00:00'')]"

definition commented_db :: "val \<Rightarrow> db" where
  "commented_db uid =
     (seeded_db ''2026-01-01 00:00:00'' True)
       \<lparr>tbl := (tbl (seeded_db ''2026-01-01 00:00:00'' True))
                 (''comments'' := [sample_comment uid])\<rparr>"

section \<open>Evaluation tables and basic lemmas\<close>

lemma word_char_table:
  "is_word_char (CHR ''a'')"
  "is_word_char (CHR ''b'')"
  "is_word_char (CHR ''c'')"
  "is_word_char (CHR ''d'')"
  "is_word_char (CHR ''e'')"
  "is_word_char (CHR ''f'')"
  "is_word_char (CHR ''g'')"
  "is_word_char (CHR ''h'')"
  "is_word_char (CHR ''i'')"
  "is_word_char (CHR ''j'')"
  "is_word_char (CHR ''k'')"
  "is_word_char (CHR ''l'')"
  "is_word_char (CHR ''m'')"
  "is_word_char (CHR ''n'')"
  "is_word_char (CHR ''o'')"
  "is_word_char (CHR ''p'')"
  "is_word_char (CHR ''q'')"
  "is_word_char (CHR ''r'')"
  "is_word_char (CHR ''s'')"
  "is_word_char (CHR ''t'')"
  "is_word_char (CHR ''u'')"
  "is_word_char (CHR ''v'')"
  "is_word_char (CHR ''w'')"
  "is_word_char (CHR ''x'')"
  "is_word_char (CHR ''y'')"
  "is_word_char (CHR ''z'')"
  "is_word_char (CHR ''A'')"
  "is_word_char (CHR ''B'')"
  "is_word_char (CHR ''C'')"
  "is_word_char (CHR ''D'')"
  "is_word_char (CHR ''E'')"
  "is_word_char (CHR ''F'')"
  "is_word_char (CHR ''G'')"
  "is_word_char (CHR ''H'')"
  "is_word_char (CHR ''I'')"
  "is_word_char (CHR ''J'')"
  "is_word_char (CHR ''K'')"
  "is_word_char (CHR ''L'')"
  "is_word_char (CHR ''M'')"
  "is_word_char (CHR ''N'')"
  "is_word_char (CHR ''O'')"
  "is_word_char (CHR ''P'')"
  "is_word_char (CHR ''Q'')"
  "is_word_char (CHR ''R'')"
  "is_word_char (CHR ''S'')"
  "is_word_char (CHR ''T'')"
  "is_word_char (CHR ''U'')"
  "is_word_char (CHR ''V'')"
  "is_word_char (CHR ''W'')"
  "is_word_char (CHR ''X'')"
  "is_word_char (CHR ''Y'')"
  "is_word_char (CHR ''Z'')"
  "is_word_char (CHR ''0'')"
  "is_word_char (CHR ''1'')"
  "is_word_char (CHR ''2'')"
  "is_word_char (CHR ''3'')"
  "is_word_char (CHR ''4'')"
  "is_word_char (CHR ''5'')"
  "is_word_char (CHR ''6'')"
  "is_word_char (CHR ''7'')"
  "is_word_char (CHR ''8'')"
  "is_word_char (CHR ''9'')"
  "is_word_char (CHR ''_'')"
  by (simp_all add: is_word_char_def)

lemma not_word_char_table:
  "\<not> is_word_char (CHR '' '')"
  "\<not> is_word_char (CHR ''('')"
  "\<not> is_word_char (CHR '')'')"
  "\<not> is_word_char (CHR '','')"
  "\<not> is_word_char (CHR ''='')"
  "\<not> is_word_char (CHR ''?'')"
  "\<not> is_word_char (CHR ''*'')"
  "\<not> is_word_char (CHR ''-'')"
  "\<not> is_word_char (CHR ''%'')"
  "\<not> is_word_char (CHR ''.'')"
  "\<not> is_word_char (CHR '':'')"
  "\<not> is_word_char (CHR '';'')"
  "\<not> is_word_char (CHR 0x27)"
  "\<not> is_word_char (CHR ''<'')"
  "\<not> is_word_char (CHR ''>'')"
  "\<not> is_word_char (CHR ''/'')"
  "\<not> is_word_char (CHR ''+'')"
  "\<not> is_word_char (CHR ''!'')"
  "\<not> is_word_char (CHR ''@'')"
  "\<not> is_word_char (CHR ''#'')"
  "\<not> is_word_char (CHR ''$'')"
  "\<not> is_word_char (CHR ''&'')"
  "\<not> is_word_char (CHR ''['')"
  "\<not> is_word_char (CHR '']'')"
  "\<not> is_word_char (CHR ''{'')"
  "\<not> is_word_char (CHR ''}'')"
  "\<not> is_word_char (CHR ''|'')"
  "\<not> is_word_char (CHR ''~'')"
  "\<not> is_word_char (CHR ''^'')"
  by (simp_all add: is_word_char_def)

lemma space_table:
  "is_space (CHR '' '')"
  "\<not> is_space (CHR ''('')"
  "\<not> is_space (CHR '')'')"
  "\<not> is_space (CHR '','')"
  "\<not> is_space (CHR ''='')"
  "\<not> is_space (CHR ''?'')"
  "\<not> is_space (CHR ''*'')"
  "\<not> is_space (CHR ''-'')"
  "\<not> is_space (CHR ''%'')"
  "\<not> is_space (CHR ''.'')"
  "\<not> is_space (CHR '':'')"
  "\<not> is_space (CHR '';'')"
  "\<not> is_space (CHR 0x27)"
  "\<not> is_space (CHR ''<'')"
  "\<not> is_space (CHR ''>'')"
  "\<not> is_space (CHR ''/'')"
  "\<not> is_space (CHR ''+'')"
  "\<not> is_space (CHR ''!'')"
  "\<not> is_space (CHR ''@'')"
  "\<not> is_space (CHR ''#'')"
  "\<not> is_space (CHR ''$'')"
  "\<not> is_space (CHR ''&'')"
  "\<not> is_space (CHR ''['')"
  "\<not> is_space (CHR '']'')"
  "\<not> is_space (CHR ''{'')"
  "\<not> is_space (CHR ''}'')"
  "\<not> is_space (CHR ''|'')"
  "\<not> is_space (CHR ''~'')"
  "\<not> is_space (CHR ''^'')"
  "\<not> is_space (CHR ''a'')"
  "\<not> is_space (CHR ''b'')"
  "\<not> is_space (CHR ''c'')"
  "\<not> is_space (CHR ''d'')"
  "\<not> is_space (CHR ''e'')"
  "\<not> is_space (CHR ''f'')"
  "\<not> is_space (CHR ''g'')"
  "\<not> is_space (CHR ''h'')"
  "\<not> is_space (CHR ''i'')"
  "\<not> is_space (CHR ''j'')"
  "\<not> is_space (CHR ''k'')"
  "\<not> is_space (CHR ''l'')"
  "\<not> is_space (CHR ''m'')"
  "\<not> is_space (CHR ''n'')"
  "\<not> is_space (CHR ''o'')"
  "\<not> is_space (CHR ''p'')"
  "\<not> is_space (CHR ''q'')"
  "\<not> is_space (CHR ''r'')"
  "\<not> is_space (CHR ''s'')"
  "\<not> is_space (CHR ''t'')"
  "\<not> is_space (CHR ''u'')"
  "\<not> is_space (CHR ''v'')"
  "\<not> is_space (CHR ''w'')"
  "\<not> is_space (CHR ''x'')"
  "\<not> is_space (CHR ''y'')"
  "\<not> is_space (CHR ''z'')"
  "\<not> is_space (CHR ''A'')"
  "\<not> is_space (CHR ''B'')"
  "\<not> is_space (CHR ''C'')"
  "\<not> is_space (CHR ''D'')"
  "\<not> is_space (CHR ''E'')"
  "\<not> is_space (CHR ''F'')"
  "\<not> is_space (CHR ''G'')"
  "\<not> is_space (CHR ''H'')"
  "\<not> is_space (CHR ''I'')"
  "\<not> is_space (CHR ''J'')"
  "\<not> is_space (CHR ''K'')"
  "\<not> is_space (CHR ''L'')"
  "\<not> is_space (CHR ''M'')"
  "\<not> is_space (CHR ''N'')"
  "\<not> is_space (CHR ''O'')"
  "\<not> is_space (CHR ''P'')"
  "\<not> is_space (CHR ''Q'')"
  "\<not> is_space (CHR ''R'')"
  "\<not> is_space (CHR ''S'')"
  "\<not> is_space (CHR ''T'')"
  "\<not> is_space (CHR ''U'')"
  "\<not> is_space (CHR ''V'')"
  "\<not> is_space (CHR ''W'')"
  "\<not> is_space (CHR ''X'')"
  "\<not> is_space (CHR ''Y'')"
  "\<not> is_space (CHR ''Z'')"
  "\<not> is_space (CHR ''0'')"
  "\<not> is_space (CHR ''1'')"
  "\<not> is_space (CHR ''2'')"
  "\<not> is_space (CHR ''3'')"
  "\<not> is_space (CHR ''4'')"
  "\<not> is_space (CHR ''5'')"
  "\<not> is_space (CHR ''6'')"
  "\<not> is_space (CHR ''7'')"
  "\<not> is_space (CHR ''8'')"
  "\<not> is_space (CHR ''9'')"
  "\<not> is_space (CHR ''_'')"
  by (simp_all add: is_space_def)

lemma lower_char_table:
  "lower_char (CHR ''a'') = CHR ''a''"
  "lower_char (CHR ''b'') = CHR ''b''"
  "lower_char (CHR ''c'') = CHR ''c''"
  "lower_char (CHR ''d'') = CHR ''d''"
  "lower_char (CHR ''e'') = CHR ''e''"
  "lower_char (CHR ''f'') = CHR ''f''"
  "lower_char (CHR ''g'') = CHR ''g''"
  "lower_char (CHR ''h'') = CHR ''h''"
  "lower_char (CHR ''i'') = CHR ''i''"
  "lower_char (CHR ''j'') = CHR ''j''"
  "lower_char (CHR ''k'') = CHR ''k''"
  "lower_char (CHR ''l'') = CHR ''l''"
  "lower_char (CHR ''m'') = CHR ''m''"
  "lower_char (CHR ''n'') = CHR ''n''"
  "lower_char (CHR ''o'') = CHR ''o''"
  "lower_char (CHR ''p'') = CHR ''p''"
  "lower_char (CHR ''q'') = CHR ''q''"
  "lower_char (CHR ''r'') = CHR ''r''"
  "lower_char (CHR ''s'') = CHR ''s''"
  "lower_char (CHR ''t'') = CHR ''t''"
  "lower_char (CHR ''u'') = CHR ''u''"
  "lower_char (CHR ''v'') = CHR ''v''"
  "lower_char (CHR ''w'') = CHR ''w''"
  "lower_char (CHR ''x'') = CHR ''x''"
  "lower_char (CHR ''y'') = CHR ''y''"
  "lower_char (CHR ''z'') = CHR ''z''"
  "lower_char (CHR ''A'') = CHR ''a''"
  "lower_char (CHR ''B'') = CHR ''b''"
  "lower_char (CHR ''C'') = CHR ''c''"
  "lower_char (CHR ''D'') = CHR ''d''"
  "lower_char (CHR ''E'') = CHR ''e''"
  "lower_char (CHR ''F'') = CHR ''f''"
  "lower_char (CHR ''G'') = CHR ''g''"
  "lower_char (CHR ''H'') = CHR ''h''"
  "lower_char (CHR ''I'') = CHR ''i''"
  "lower_char (CHR ''J'') = CHR ''j''"
  "lower_char (CHR ''K'') = CHR ''k''"
  "lower_char (CHR ''L'') = CHR ''l''"
  "lower_char (CHR ''M'') = CHR ''m''"
  "lower_char (CHR ''N'') = CHR ''n''"
  "lower_char (CHR ''O'') = CHR ''o''"
  "lower_char (CHR ''P'') = CHR ''p''"
  "lower_char (CHR ''Q'') = CHR ''q''"
  "lower_char (CHR ''R'') = CHR ''r''"
  "lower_char (CHR ''S'') = CHR ''s''"
  "lower_char (CHR ''T'') = CHR ''t''"
  "lower_char (CHR ''U'') = CHR ''u''"
  "lower_char (CHR ''V'') = CHR ''v''"
  "lower_char (CHR ''W'') = CHR ''w''"
  "lower_char (CHR ''X'') = CHR ''x''"
  "lower_char (CHR ''Y'') = CHR ''y''"
  "lower_char (CHR ''Z'') = CHR ''z''"
  "lower_char (CHR ''0'') = CHR ''0''"
  "lower_char (CHR ''1'') = CHR ''1''"
  "lower_char (CHR ''2'') = CHR ''2''"
  "lower_char (CHR ''3'') = CHR ''3''"
  "lower_char (CHR ''4'') = CHR ''4''"
  "lower_char (CHR ''5'') = CHR ''5''"
  "lower_char (CHR ''6'') = CHR ''6''"
  "lower_char (CHR ''7'') = CHR ''7''"
  "lower_char (CHR ''8'') = CHR ''8''"
  "lower_char (CHR ''9'') = CHR ''9''"
  "lower_char (CHR ''_'') = CHR ''_''"
  "lower_char (CHR '' '') = CHR '' ''"
  "lower_char (CHR ''('') = CHR ''(''"
  "lower_char (CHR '')'') = CHR '')''"
  "lower_char (CHR '','') = CHR '',''"
  "lower_char (CHR ''='') = CHR ''=''"
  "lower_char (CHR ''?'') = CHR ''?''"
  "lower_char (CHR ''*'') = CHR ''*''"
  "lower_char (CHR ''-'') = CHR ''-''"
  "lower_char (CHR ''%'') = CHR ''%''"
  "lower_char (CHR ''.'') = CHR ''.''"
  "lower_char (CHR '':'') = CHR '':''"
  "lower_char (CHR '';'') = CHR '';''"
  "lower_char (CHR 0x27) = CHR 0x27"
  "lower_char (CHR ''<'') = CHR ''<''"
  "lower_char (CHR ''>'') = CHR ''>''"
  "lower_char (CHR ''/'') = CHR ''/''"
  "lower_char (CHR ''+'') = CHR ''+''"
  "lower_char (CHR ''!'') = CHR ''!''"
  "lower_char (CHR ''@'') = CHR ''@''"
  "lower_char (CHR ''#'') = CHR ''#''"
  "lower_char (CHR ''$'') = CHR ''$''"
  "lower_char (CHR ''&'') = CHR ''&''"
  "lower_char (CHR ''['') = CHR ''[''"
  "lower_char (CHR '']'') = CHR '']''"
  "lower_char (CHR ''{'') = CHR ''{''"
  "lower_char (CHR ''}'') = CHR ''}''"
  "lower_char (CHR ''|'') = CHR ''|''"
  "lower_char (CHR ''~'') = CHR ''~''"
  "lower_char (CHR ''^'') = CHR ''^''"
  by (simp_all add: lower_char_def)

lemma digit_table:
  "is_digit (CHR ''0'')"
  "is_digit (CHR ''1'')"
  "is_digit (CHR ''2'')"
  "is_digit (CHR ''3'')"
  "is_digit (CHR ''4'')"
  "is_digit (CHR ''5'')"
  "is_digit (CHR ''6'')"
  "is_digit (CHR ''7'')"
  "is_digit (CHR ''8'')"
  "is_digit (CHR ''9'')"
  "\<not> is_digit (CHR ''a'')"
  "\<not> is_digit (CHR ''b'')"
  "\<not> is_digit (CHR ''c'')"
  "\<not> is_digit (CHR ''d'')"
  "\<not> is_digit (CHR ''e'')"
  "\<not> is_digit (CHR ''f'')"
  "\<not> is_digit (CHR ''g'')"
  "\<not> is_digit (CHR ''h'')"
  "\<not> is_digit (CHR ''i'')"
  "\<not> is_digit (CHR ''j'')"
  "\<not> is_digit (CHR ''k'')"
  "\<not> is_digit (CHR ''l'')"
  "\<not> is_digit (CHR ''m'')"
  "\<not> is_digit (CHR ''n'')"
  "\<not> is_digit (CHR ''o'')"
  "\<not> is_digit (CHR ''p'')"
  "\<not> is_digit (CHR ''q'')"
  "\<not> is_digit (CHR ''r'')"
  "\<not> is_digit (CHR ''s'')"
  "\<not> is_digit (CHR ''t'')"
  "\<not> is_digit (CHR ''u'')"
  "\<not> is_digit (CHR ''v'')"
  "\<not> is_digit (CHR ''w'')"
  "\<not> is_digit (CHR ''x'')"
  "\<not> is_digit (CHR ''y'')"
  "\<not> is_digit (CHR ''z'')"
  "\<not> is_digit (CHR ''A'')"
  "\<not> is_digit (CHR ''B'')"
  "\<not> is_digit (CHR ''C'')"
  "\<not> is_digit (CHR ''D'')"
  "\<not> is_digit (CHR ''E'')"
  "\<not> is_digit (CHR ''F'')"
  "\<not> is_digit (CHR ''G'')"
  "\<not> is_digit (CHR ''H'')"
  "\<not> is_digit (CHR ''I'')"
  "\<not> is_digit (CHR ''J'')"
  "\<not> is_digit (CHR ''K'')"
  "\<not> is_digit (CHR ''L'')"
  "\<not> is_digit (CHR ''M'')"
  "\<not> is_digit (CHR ''N'')"
  "\<not> is_digit (CHR ''O'')"
  "\<not> is_digit (CHR ''P'')"
  "\<not> is_digit (CHR ''Q'')"
  "\<not> is_digit (CHR ''R'')"
  "\<not> is_digit (CHR ''S'')"
  "\<not> is_digit (CHR ''T'')"
  "\<not> is_digit (CHR ''U'')"
  "\<not> is_digit (CHR ''V'')"
  "\<not> is_digit (CHR ''W'')"
  "\<not> is_digit (CHR ''X'')"
  "\<not> is_digit (CHR ''Y'')"
  "\<not> is_digit (CHR ''Z'')"
  "\<not> is_digit (CHR ''_'')"
  "\<not> is_digit (CHR '' '')"
  "\<not> is_digit (CHR ''('')"
  "\<not> is_digit (CHR '')'')"
  "\<not> is_digit (CHR '','')"
  "\<not> is_digit (CHR ''='')"
  "\<not> is_digit (CHR ''?'')"
  "\<not> is_digit (CHR ''*'')"
  "\<not> is_digit (CHR ''-'')"
  "\<not> is_digit (CHR ''%'')"
  "\<not> is_digit (CHR ''.'')"
  "\<not> is_digit (CHR '':'')"
  "\<not> is_digit (CHR '';'')"
  "\<not> is_digit (CHR 0x27)"
  "\<not> is_digit (CHR ''<'')"
  "\<not> is_digit (CHR ''>'')"
  "\<not> is_digit (CHR ''/'')"
  "\<not> is_digit (CHR ''+'')"
  "\<not> is_digit (CHR ''!'')"
  "\<not> is_digit (CHR ''@'')"
  "\<not> is_digit (CHR ''#'')"
  "\<not> is_digit (CHR ''$'')"
  "\<not> is_digit (CHR ''&'')"
  "\<not> is_digit (CHR ''['')"
  "\<not> is_digit (CHR '']'')"
  "\<not> is_digit (CHR ''{'')"
  "\<not> is_digit (CHR ''}'')"
  "\<not> is_digit (CHR ''|'')"
  "\<not> is_digit (CHR ''~'')"
  "\<not> is_digit (CHR ''^'')"
  by (simp_all add: is_digit_def)

lemma digit_val_table:
  "digit_val (CHR ''0'') = 0"
  "digit_val (CHR ''1'') = 1"
  "digit_val (CHR ''2'') = 2"
  "digit_val (CHR ''3'') = 3"
  "digit_val (CHR ''4'') = 4"
  "digit_val (CHR ''5'') = 5"
  "digit_val (CHR ''6'') = 6"
  "digit_val (CHR ''7'') = 7"
  "digit_val (CHR ''8'') = 8"
  "digit_val (CHR ''9'') = 9"
  by (simp_all add: digit_val_def)

lemmas lex_simps = word_char_table not_word_char_table space_table sym_token_def

lemmas kw_simps = kw_def lower_def lower_char_table

lemmas schema_defs = tables_def columns_of_def find_table_def find_column_def col_def ref_def
  roles_columns_def users_columns_def leads_columns_def customers_columns_def
  opportunities_columns_def contracts_columns_def activities_columns_def
  comments_columns_def follow_ups_columns_def soft_delete_columns_def

lemma valid_cases:
  "m \<in> set validModules \<Longrightarrow>
   m = ''leads'' \<or> m = ''customers'' \<or> m = ''opportunities'' \<or> m = ''contracts''
   \<or> m = ''activities''"
  by (simp add: validModules_def)

lemma valid_plain: "m \<in> set validModules \<Longrightarrow> plain_ident m"
  by (auto dest!: valid_cases simp: plain_ident_def word_char_table)

lemma word_not_space: "is_word_char c \<Longrightarrow> \<not> is_space c"
  by (auto simp: is_word_char_def is_space_def)

lemma tokenize_word:
  assumes "plain_ident w" and "rest = [] \<or> \<not> is_word_char (hd rest)"
  shows "tokenize (w @ rest) = Word w # tokenize rest"
proof -
  from assms(1) obtain c cs where w: "w = c # cs" and c: "is_word_char c"
    and cs: "\<forall>x\<in>set cs. is_word_char x"
    by (cases w) (auto simp: plain_ident_def list_all_iff)
  have stop: "takeWhile is_word_char rest = []" "dropWhile is_word_char rest = rest"
    using assms(2) by (cases rest; simp)+
  have "takeWhile is_word_char (cs @ rest) = cs" "dropWhile is_word_char (cs @ rest) = rest"
    using cs stop by simp_all
  with w c show ?thesis by simp
qed

lemma tokenize_word_end: "plain_ident w \<Longrightarrow> tokenize w = [Word w]"
  using tokenize_word [of w "[]"] by simp

lemma parse_join_idents:
  assumes "list_all plain_ident fs" and "fs \<noteq> []"
  shows "parse_idents (tokenize (join '','' fs @ CHR '')'' # rest))
           = Some (fs, RParen # tokenize rest)"
  using assms
proof (induction fs rule: induct_list012)
  case 1
  then show ?case by simp
next
  case (2 f)
  then show ?case by (simp add: tokenize_word lex_simps)
next
  case (3 f g gs)
  have "tokenize (f @ CHR '','' # join '','' (g # gs) @ CHR '')'' # rest)
          = Word f # Comma # tokenize (join '','' (g # gs) @ CHR '')'' # rest)"
    using 3(3) by (simp add: tokenize_word lex_simps)
  with 3 show ?case by simp
qed

lemma parse_join_qmarks:
  assumes "fs \<noteq> []"
  shows "parse_qmarks (tokenize (join '','' (map (\<lambda>f. ''?'') fs) @ '')''))
           = Some (length fs, [RParen])"
  using assms
proof (induction fs rule: induct_list012)
  case 1
  then show ?case by simp
next
  case (2 f)
  then show ?case by (simp add: lex_simps)
next
  case (3 f g gs)
  then show ?case by (simp add: lex_simps)
qed

lemma parse_join_assigns:
  assumes "list_all plain_ident fs" and "fs \<noteq> []"
  shows "parse_assigns (tokenize (join '','' (map (\<lambda>f. f @ '' = ?'') fs)
                                  @ '', updated_at = CURRENT_TIMESTAMP WHERE id = ?''))
           = Some (map (\<lambda>f. (f, RParam)) fs @ [(''updated_at'', RNow)],
                   [Word ''WHERE'', Word ''id'', Equals, QMark])"
  using assms
proof (induction fs rule: induct_list012)
  case 1
  then show ?case by simp
next
  case (2 f)
  have "tokenize (f @ '' = ?, updated_at = CURRENT_TIMESTAMP WHERE id = ?'')
          = [Word f, Equals, QMark, Comma, Word ''updated_at'', Equals,
             Word ''CURRENT_TIMESTAMP'', Word ''WHERE'', Word ''id'', Equals, QMark]"
    using 2 by (simp add: tokenize_word lex_simps)
  then show ?case by (simp add: parse_rhs_def kw_simps)
next
  case (3 f g gs)
  have "tokenize (f @ '' = ?,'' @ join '','' (map (\<lambda>f. f @ '' = ?'') (g # gs))
                  @ '', updated_at = CURRENT_TIMESTAMP WHERE id = ?'')
          = Word f # Equals # QMark # Comma
            # tokenize (join '','' (map (\<lambda>f. f @ '' = ?'') (g # gs))
                        @ '', updated_at = CURRENT_TIMESTAMP WHERE id = ?'')"
    using 3(3) by (simp add: tokenize_word lex_simps)
  with 3 show ?case by (simp add: parse_rhs_def)
qed

subsection \<open>What the statements of the handlers compile to\<close>

lemma find_table_valid: "m \<in> set validModules \<Longrightarrow> find_table m = Some m"
  by (auto dest!: valid_cases simp: find_table_def tables_def lower_def lower_char_table)

lemma parse_create:
  assumes "plain_ident m" and "list_all plain_ident fs" and "fs \<noteq> []"
  shows "parse (create_sql m fs) = Parsed (Insert m fs (length fs))"
proof -
  have "tokenize (create_sql m fs)
          = Word ''INSERT'' # Word ''INTO'' # Word m # LParen
            # tokenize (join '','' fs @ CHR '')'' # '' VALUES (''
                        @ join '','' (map (\<lambda>f. ''?'') fs) @ '')'')"
    using assms(1) by (simp add: create_sql_def tokenize_word lex_simps)
  moreover have "tokenize ('' VALUES ('' @ join '','' (map (\<lambda>f. ''?'') fs) @ '')'')
          = Word ''VALUES'' # LParen # tokenize (join '','' (map (\<lambda>f. ''?'') fs) @ '')'')"
    by (simp add: lex_simps)
  ultimately show ?thesis
    using assms(2,3)
    by (simp add: parse_def parse_insert_def kw_simps parse_join_idents parse_join_qmarks)
qed

lemma parse_create_empty:
  assumes "plain_ident m"
  shows "parse (create_sql m []) = SyntaxError"
proof -
  have "tokenize (create_sql m [])
          = [Word ''INSERT'', Word ''INTO'', Word m, LParen, RParen, Word ''VALUES'', LParen,
             RParen]"
    using assms by (simp add: create_sql_def tokenize_word lex_simps)
  then show ?thesis
    by (simp add: parse_def parse_insert_def kw_simps)
qed

lemma parse_update:
  assumes "plain_ident m" and "list_all plain_ident fs" and "fs \<noteq> []"
  shows "parse (update_sql m fs)
           = Parsed (Update m (map (\<lambda>f. (f, RParam)) fs @ [(''updated_at'', RNow)]))"
proof -
  have "tokenize (update_sql m fs)
          = Word ''UPDATE'' # Word m # Word ''SET''
            # tokenize (join '','' (map (\<lambda>f. f @ '' = ?'') fs)
                        @ '', updated_at = CURRENT_TIMESTAMP WHERE id = ?'')"
    using assms(1) by (simp add: update_sql_def tokenize_word lex_simps)
  then show ?thesis
    using assms(2,3)
    by (simp add: parse_def parse_update_def kw_simps parse_join_assigns)
qed

lemma parse_update_empty:
  assumes "plain_ident m"
  shows "parse (update_sql m []) = SyntaxError"
proof -
  have "tokenize (update_sql m [])
          = [Word ''UPDATE'', Word m, Word ''SET'', Comma, Word ''updated_at'', Equals,
             Word ''CURRENT_TIMESTAMP'', Word ''WHERE'', Word ''id'', Equals, QMark]"
    using assms by (simp add: update_sql_def tokenize_word lex_simps)
  then show ?thesis
    by (simp add: parse_def parse_update_def kw_simps)
qed

lemma resolve_cols_SomeD:
  "resolve_cols cols ks = Some cs \<Longrightarrow> k \<in> set ks \<Longrightarrow> find_column cols k \<noteq> None"
  by (induction ks arbitrary: cs) (auto split: option.splits)

lemma resolve_cols_None:
  "\<exists>k\<in>set ks. find_column cols k = None \<Longrightarrow> resolve_cols cols ks = None"
  by (cases "resolve_cols cols ks") (auto dest: resolve_cols_SomeD)

lemma resolve_cols_Some:
  "list_all (\<lambda>k. find_column cols k \<noteq> None) ks \<Longrightarrow>
   resolve_cols cols ks = Some (map (\<lambda>k. cname (the (find_column cols k))) ks)"
  by (induction ks) (auto split: option.splits)

lemma prepare_create_unknown:
  assumes "m \<in> set validModules" and "list_all plain_ident fs"
    and "\<exists>k\<in>set fs. find_column (columns_of m) k = None"
  shows "prepare (create_sql m fs) = sql_error"
proof -
  from assms(3) have "fs \<noteq> []" by auto
  then show ?thesis
    using assms
    by (simp add: prepare_def parse_create valid_plain find_table_valid resolve_cols_None)
qed

lemma prepare_create_empty:
  "plain_ident m \<Longrightarrow> prepare (create_sql m []) = sql_error"
  by (simp add: prepare_def parse_create_empty)

lemma prepare_update_empty:
  "plain_ident m \<Longrightarrow> prepare (update_sql m []) = sql_error"
  by (simp add: prepare_def parse_update_empty)

lemma find_soft_delete_columns:
  assumes "m \<in> set validModules"
  shows "find_column (columns_of m) ''is_deleted'' = Some (Column ''is_deleted'' INTEGER (DInt 0) False None)"
    and "find_column (columns_of m) ''deleted_at'' = Some (col ''deleted_at'' DATETIME)"
    and "find_column (columns_of m) ''created_at'' = Some (Column ''created_at'' DATETIME DNow False None)"
    and "find_column (columns_of m) ''updated_at'' = Some (Column ''updated_at'' DATETIME DNow False None)"
  using valid_cases [OF assms]
  by (elim disjE; simp add: columns_of_def tables_def find_column_def lower_def lower_char_table
        leads_columns_def customers_columns_def opportunities_columns_def
        contracts_columns_def activities_columns_def soft_delete_columns_def col_def ref_def)+

lemma prepare_soft_delete:
  assumes "m \<in> set validModules"
  shows "prepare (soft_delete_sql m)
           = Inr (Update m [(''is_deleted'', RInt 1), (''deleted_at'', RNow)])"
proof -
  have "tokenize (soft_delete_sql m)
          = [Word ''UPDATE'', Word m, Word ''SET'', Word ''is_deleted'', Equals, Word ''1'',
             Comma, Word ''deleted_at'', Equals, Word ''CURRENT_TIMESTAMP'', Word ''WHERE'',
             Word ''id'', Equals, QMark]"
    using valid_plain [OF assms] by (simp add: soft_delete_sql_def tokenize_word lex_simps)
  then have "parse (soft_delete_sql m)
               = Parsed (Update m [(''is_deleted'', RInt 1), (''deleted_at'', RNow)])"
    by (simp add: parse_def parse_update_def parse_rhs_def kw_simps digit_table
        int_of_digits_def digit_val_def)
  then show ?thesis
    using assms by (simp add: prepare_def find_table_valid find_soft_delete_columns col_def)
qed

lemma prepare_restore:
  assumes "m \<in> set validModules"
  shows "prepare (restore_sql m)
           = Inr (Update m [(''is_deleted'', RInt 0), (''deleted_at'', RNull)])"
proof -
  have "tokenize (restore_sql m)
          = [Word ''UPDATE'', Word m, Word ''SET'', Word ''is_deleted'', Equals, Word ''0'',
             Comma, Word ''deleted_at'', Equals, Word ''NULL'', Word ''WHERE'',
             Word ''id'', Equals, QMark]"
    using valid_plain [OF assms] by (simp add: restore_sql_def tokenize_word lex_simps)
  then have "parse (restore_sql m)
               = Parsed (Update m [(''is_deleted'', RInt 0), (''deleted_at'', RNull)])"
    by (simp add: parse_def parse_update_def parse_rhs_def kw_simps digit_table
        int_of_digits_def digit_val_def)
  then show ?thesis
    using assms by (simp add: prepare_def find_table_valid find_soft_delete_columns col_def)
qed

subsection \<open>Rows and constraint checks\<close>

lemma col_val_put: "col_val (put c v r) c' = (if c' = c then v else col_val r c')"
  by (induction r) (auto simp: col_val_def)

lemma row_id_put: "c \<noteq> ''id'' \<Longrightarrow> row_id (put c v r) = row_id r"
  by (simp add: row_id_def col_val_put)

lemma set_insert_desc: "set (insert_desc c r xs) = insert r (set xs)"
  by (induction xs) auto

lemma set_order_desc: "set (order_desc c rows) = set rows"
  by (induction rows) (simp_all add: order_desc_def set_insert_desc)

lemma set_scan: "set (scan rows) = set rows"
  by (simp add: scan_def)

lemma map_filter_None: "(\<And>x. x \<in> set xs \<Longrightarrow> f x = None) \<Longrightarrow> List.map_filter f xs = []"
  by (induction xs) (simp_all add: List.map_filter_def)

lemma check_row_unconstrained:
  assumes "unconstrained t assigned"
  shows "check_row d t assigned others old r = None"
proof -
  from assms have "unique_ok (columns_of t) assigned others r"
    by (auto simp: unconstrained_def unique_ok_def list_all_iff)
  moreover from assms have "fk_child_ok d (columns_of t) assigned r"
    by (auto simp: unconstrained_def fk_child_ok_def list_all_iff split: option.splits)
  moreover from assms have "''id'' \<notin> set assigned"
    by (simp add: unconstrained_def)
  ultimately show ?thesis
    by (simp add: check_row_def)
qed

lemma exec_update_unconstrained:
  assumes "eval_assigns now (columns_of t) as (butlast vs) = Some sets"
    and "store INTEGER (last vs) = Some idv"
    and "vs \<noteq> []"
    and "unconstrained t (map fst sets)"
  shows "exec_update now d t as vs
           = Inr (d\<lparr>tbl := (tbl d)(t :=
                     map (\<lambda>r. if id_matches idv r then apply_assigns sets r else r) (tbl d t))\<rparr>,
                  length (filter (id_matches idv) (tbl d t)))"
proof -
  obtain v vs' where "vs = v # vs'" using assms(3) by (cases vs) auto
  then show ?thesis
    using assms(1,2)
    by (simp add: exec_update_def check_row_unconstrained [OF assms(4)] map_filter_None
        del: butlast.simps last.simps)
qed


lemma db_tbl_same: "d\<lparr>tbl := (tbl d)(t := tbl d t)\<rparr> = d"
  by simp

lemma tbl_counted [simp]: "tbl (counted d) = tbl d"
  and sequence_counted [simp]: "sqlite_sequence (counted d) = sqlite_sequence d"
  and foreign_keys_counted [simp]: "foreign_keys (counted d) = foreign_keys d"
  and prepared_counted [simp]: "prepared (counted d) = Suc (prepared d)"
  by (simp_all add: counted_def)

lemma soft_delete_columns_free:
  assumes "m \<in> set validModules"
  shows "unconstrained m [''is_deleted'', ''deleted_at'']"
    and "unconstrained m [''status'', ''updated_at'']"
    and "type_of (columns_of m) ''is_deleted'' = INTEGER"
  using valid_cases [OF assms]
  by (elim disjE; simp add: unconstrained_def type_of_def columns_of_def tables_def
        leads_columns_def customers_columns_def opportunities_columns_def
        contracts_columns_def activities_columns_def soft_delete_columns_def col_def ref_def)+

subsection \<open>The effect of soft delete and restore\<close>

lemma soft_delete_api_eq:
  assumes "m \<in> set validModules" and "store INTEGER (VText ident) = Some idv"
  shows "soft_delete_api now d m ident
           = (Json 200 BSuccess,
              (counted d)\<lparr>tbl := (tbl d)(m :=
                 map (\<lambda>r. if id_matches idv r then mark_deleted now r else r) (tbl d m))\<rparr>)"
proof -
  have "exec_update now (counted d) m [(''is_deleted'', RInt 1), (''deleted_at'', RNow)]
          [VText ident]
        = Inr ((counted d)\<lparr>tbl := (tbl (counted d))(m :=
                 map (\<lambda>r. if id_matches idv r
                           then apply_assigns [(''is_deleted'', VInt 1), (''deleted_at'', VText now)] r
                           else r) (tbl (counted d) m))\<rparr>,
               length (filter (id_matches idv) (tbl (counted d) m)))"
    using assms
    by (intro exec_update_unconstrained)
       (simp_all add: soft_delete_columns_free store_def)
  then show ?thesis
    using assms(1)
    by (simp add: soft_delete_api_def run_by_id_def prepare_soft_delete run_def
        placeholders_of_def bind_value_def apply_assigns_def mark_deleted_def cong: if_cong)
qed

lemma restore_api_eq:
  assumes "m \<in> set validModules" and "store INTEGER (VText ident) = Some idv"
  shows "restore_api now d m ident
           = (Json 200 BSuccess,
              (counted d)\<lparr>tbl := (tbl d)(m :=
                 map (\<lambda>r. if id_matches idv r then mark_restored r else r) (tbl d m))\<rparr>)"
proof -
  have "exec_update now (counted d) m [(''is_deleted'', RInt 0), (''deleted_at'', RNull)]
          [VText ident]
        = Inr ((counted d)\<lparr>tbl := (tbl (counted d))(m :=
                 map (\<lambda>r. if id_matches idv r
                           then apply_assigns [(''is_deleted'', VInt 0), (''deleted_at'', VNull)] r
                           else r) (tbl (counted d) m))\<rparr>,
               length (filter (id_matches idv) (tbl (counted d) m)))"
    using assms
    by (intro exec_update_unconstrained)
       (simp_all add: soft_delete_columns_free store_def)
  then show ?thesis
    using assms(1)
    by (simp add: restore_api_def run_by_id_def prepare_restore run_def
        placeholders_of_def bind_value_def apply_assigns_def mark_restored_def cong: if_cong)
qed

subsection \<open>The list route without \<^verbatim>\<open>q\<close> and \<^verbatim>\<open>status\<close>\<close>

lemma prepare_list_plain:
  assumes "m \<in> set validModules" and "\<not> truthy (query_q qy)" and "\<not> truthy (query_status qy)"
  shows "prepare (list_sql m qy) = Inr (Select m [CEq ''is_deleted''] ''created_at'')"
proof -
  have "tokenize (list_sql m qy)
          = [Word ''SELECT'', Star, Word ''FROM'', Word m, Word ''WHERE'', Word ''is_deleted'',
             Equals, QMark, Word ''ORDER'', Word ''BY'', Word ''created_at'', Word ''DESC'']"
    using valid_plain [OF assms(1)] assms(2,3)
    by (simp add: list_sql_def tokenize_word lex_simps)
  then have "parse (list_sql m qy) = Parsed (Select m [CEq ''is_deleted''] ''created_at'')"
    by (simp add: parse_def parse_select_def parse_cond_def kw_simps)
  then show ?thesis
    using assms(1) by (simp add: prepare_def find_table_valid find_soft_delete_columns col_def)
qed

lemma list_params_plain:
  assumes "\<not> truthy (query_q qy)" and "\<not> truthy (query_status qy)"
  shows "list_params qy = [case query_is_deleted qy of None \<Rightarrow> JNum 0 | Some s \<Rightarrow> JStr s]"
  using assms by (auto simp: list_params_def truthy_def split: option.splits)

lemma list_api_default:
  assumes "m \<in> set validModules" and "\<not> truthy (query_q qy)" and "\<not> truthy (query_status qy)"
    and "query_is_deleted qy = None"
  shows "list_api d m qy
           = (Json 200 (BRows (order_desc ''created_at''
                (filter (\<lambda>r. col_val r ''is_deleted'' = VInt 0) (scan (tbl d m))))),
              counted d)"
  using assms
  by (simp add: list_api_def prepare_list_plain list_params_plain all_rows_def
      placeholders_of_def bind_value_def exec_select_def soft_delete_columns_free store_def)

lemma list_api_flag:
  assumes "m \<in> set validModules" and "\<not> truthy (query_q qy)" and "\<not> truthy (query_status qy)"
    and "query_is_deleted qy = Some s" and "numeric_affinity s = Some x"
  shows "list_api d m qy
           = (Json 200 (BRows (order_desc ''created_at''
                (filter (\<lambda>r. x \<noteq> VNull \<and> col_val r ''is_deleted'' = x) (scan (tbl d m))))),
              counted d)"
  using assms
  by (simp add: list_api_def prepare_list_plain list_params_plain all_rows_def
      placeholders_of_def bind_value_def exec_select_def soft_delete_columns_free store_def)

lemma numeric_affinity_literal: "int_literal s = Some n \<Longrightarrow> numeric_affinity s = Some (VInt n)"
  by (simp add: numeric_affinity_def)

lemma store_integer_literal: "int_literal s = Some n \<Longrightarrow> store INTEGER (VText s) = Some (VInt n)"
  by (simp add: store_def numeric_affinity_literal)

lemma int_literal_1: "int_literal ''1'' = Some 1"
  by (simp add: int_literal_def digit_table int_of_digits_def digit_val_def)

subsection \<open>Marking a row\<close>

lemma put_put_same: "put c v (put c w r) = put c v r"
  by (induction r) auto

lemma put_put_again:
  "a \<noteq> b \<Longrightarrow> put b y (put a x (put b y' (put a x' r))) = put b y (put a x r)"
  by (induction r) (auto simp: put_put_same)

lemma mark_restored_deleted: "mark_restored (mark_deleted now r) = mark_restored r"
  by (simp add: mark_restored_def mark_deleted_def put_put_again)

lemma row_id_mark [simp]:
  "row_id (mark_deleted now r) = row_id r" "row_id (mark_restored r) = row_id r"
  by (simp_all add: mark_deleted_def mark_restored_def row_id_put)

lemma id_matches_mark [simp]:
  "id_matches v (mark_deleted now r) = id_matches v r"
  "id_matches v (mark_restored r) = id_matches v r"
  by (simp_all add: id_matches_def)

lemma col_val_mark_restored:
  "col_val (mark_restored r) c
     = (if c = ''deleted_at'' then VNull else if c = ''is_deleted'' then VInt 0 else col_val r c)"
  by (simp add: mark_restored_def col_val_put)

lemma col_val_mark_deleted:
  "col_val (mark_deleted now r) c
     = (if c = ''deleted_at'' then VText now else if c = ''is_deleted'' then VInt 1
        else col_val r c)"
  by (simp add: mark_deleted_def col_val_put)

lemma map_restore_delete:
  "map (\<lambda>x. if id_matches v x then mark_restored x else x)
     (map (\<lambda>x. if id_matches v x then mark_deleted now x else x) rows)
   = map (\<lambda>x. if id_matches v x then mark_restored x else x) rows"
  by (induction rows) (simp_all add: mark_restored_deleted)

subsection \<open>The update route\<close>

lemma store_text: "store TEXT v = Some (as_text v)"
  by (cases v) (simp_all add: store_def as_text_def)

lemma find_name_first:
  "find (\<lambda>x. cname x = n) cols = Some c \<Longrightarrow> find (\<lambda>x. cname x = cname c) cols = Some c"
  by (auto simp: find_Some_iff)

lemma find_column_type: "find_column cols k = Some c \<Longrightarrow> type_of cols (cname c) = ctype c"
  by (auto simp: find_column_def type_of_def find_name_first split: option.splits if_splits)




lemma acceptable_elem:
  assumes "acceptable m req_body" and "(k, j) \<in> set req_body"
  shows "\<exists>c v. plain_ident k \<and> find_column (columns_of m) k = Some c
               \<and> bind_value j = Inr v \<and> store (ctype c) v \<noteq> None"
proof -
  have "plain_ident k
        \<and> (case (find_column (columns_of m) k, bind_value j) of
             (Some c, Inr v) \<Rightarrow> store (ctype c) v \<noteq> None
           | _ \<Rightarrow> False)"
    using assms by (auto simp: acceptable_def list_all_iff)
  then show ?thesis
    by (cases "find_column (columns_of m) k"; cases "bind_value j") auto
qed


lemma prepare_update_ok:
  assumes "m \<in> set validModules" and "acceptable m req_body"
  shows "prepare (update_sql m (map fst req_body))
           = Inr (Update m
                    (map (\<lambda>(k, j). (cname (the (find_column (columns_of m) k)), RParam)) req_body
                     @ [(''updated_at'', RNow)]))"
proof -
  let ?ks = "map fst req_body"
  have ne: "?ks \<noteq> []"
    using assms(2) by (simp add: acceptable_def)
  have plain: "list_all plain_ident ?ks"
    using acceptable_elem [OF assms(2)] by (fastforce simp: list_all_iff)
  have "list_all (\<lambda>k. find_column (columns_of m) k \<noteq> None) ?ks"
    using acceptable_elem [OF assms(2)] by (fastforce simp: list_all_iff)
  then have known:
    "list_all (\<lambda>k. find_column (columns_of m) k \<noteq> None) (?ks @ [''updated_at''])"
    using assms(1) by (simp add: find_soft_delete_columns)
  have "parse (update_sql m ?ks)
          = Parsed (Update m (map (\<lambda>f. (f, RParam)) ?ks @ [(''updated_at'', RNow)]))"
    using valid_plain [OF assms(1)] plain ne by (rule parse_update)
  then show ?thesis
    using resolve_cols_Some [OF known] assms(1)
    by (simp add: prepare_def find_table_valid o_def split_def find_soft_delete_columns col_def
        zip_map_map zip_same_conv_map)
qed


subsection \<open>The seed on an empty database\<close>

lemmas eval_simps = run_def placeholders_of_def bind_value_def exec_insert_def store_def
  numeric_affinity_def int_literal_def looks_numeric_def strip_sign_def default_val_def
  next_id_def int_ids_def row_id_def col_val_def check_row_def unique_ok_def fk_child_ok_def
  counted_def digit_table space_table int_of_digits_def digit_val_table

lemmas seed_text_defs = role_super_admin_def role_dept_admin_def role_employee_def
  role_read_only_def dept_headquarters_def source_website_def source_referral_def
  status_following_def status_not_followed_def type_enterprise_def industry_logistics_def
  status_cooperating_def stage_initial_contact_def permission_def

lemma prepare_insertRole:
  "prepare insertRole = Inr (Insert ''roles'' [''name'', ''level'', ''permissions''] 3)"
  by (simp add: insertRole_def prepare_def parse_def parse_insert_def lex_simps kw_simps
      find_table_def tables_def columns_of_def find_column_def roles_columns_def col_def)

lemma prepare_insertUser:
  "prepare insertUser
     = Inr (Insert ''users'' [''username'', ''password'', ''role_id'', ''department''] 4)"
  by (simp add: insertUser_def prepare_def parse_def parse_insert_def lex_simps kw_simps
      find_table_def tables_def columns_of_def find_column_def users_columns_def col_def ref_def)

lemma prepare_insertLead:
  "prepare insertLead
     = Inr (Insert ''leads'' [''name'', ''contact_person'', ''phone'', ''email'', ''source'',
              ''level'', ''status'', ''owner_id''] 8)"
  by (simp add: insertLead_def prepare_def parse_def parse_insert_def lex_simps kw_simps
      find_table_def tables_def columns_of_def find_column_def leads_columns_def
      soft_delete_columns_def col_def ref_def)

lemma prepare_insertCustomer:
  "prepare insertCustomer
     = Inr (Insert ''customers'' [''name'', ''type'', ''industry'', ''contact_person'',
              ''phone'', ''address'', ''level'', ''status'', ''owner_id''] 9)"
  by (simp add: insertCustomer_def prepare_def parse_def parse_insert_def lex_simps kw_simps
      find_table_def tables_def columns_of_def find_column_def customers_columns_def
      soft_delete_columns_def col_def ref_def)

lemma prepare_insertOpportunity:
  "prepare insertOpportunity
     = Inr (Insert ''opportunities'' [''name'', ''customer_id'', ''stage'', ''probability'',
              ''amount'', ''expected_date'', ''owner_id''] 7)"
  by (simp add: insertOpportunity_def prepare_def parse_def parse_insert_def lex_simps kw_simps
      find_table_def tables_def columns_of_def find_column_def opportunities_columns_def
      soft_delete_columns_def col_def ref_def)

lemma seed_roles_fresh:
  "seed_with now insertRole seed_roles (counted (fresh_db fk))
     = (None, \<lparr>tbl = (\<lambda>t. [])(''roles'' := seed_rows now ''roles''),
               sqlite_sequence = (\<lambda>t. 0)(''roles'' := 4), foreign_keys = fk, prepared = 2\<rparr>)"
  by (simp add: seed_with_def prepare_insertRole seed_roles_def eval_simps fresh_db_def
      columns_of_def tables_def roles_columns_def col_def seed_rows_def seeded_role_def
      seed_text_defs)

lemma startup_fresh:
  "startup now (fresh_db fk)
     = (None,
        \<lparr>tbl = (\<lambda>t. [])(''roles'' := seed_rows now ''roles'', ''users'' := seed_rows now ''users'',
                 ''leads'' := seed_rows now ''leads'',
                 ''customers'' := seed_rows now ''customers'',
                 ''opportunities'' := seed_rows now ''opportunities''),
         sqlite_sequence = (\<lambda>t. 0)(''roles'' := 4, ''users'' := 1, ''leads'' := 2,
                 ''customers'' := 1, ''opportunities'' := 1),
         foreign_keys = fk, prepared = 7\<rparr>)"
  by (simp add: startup_def and_then_def seed_admin_def seed_with_def fresh_db_def
      prepare_insertRole prepare_insertUser prepare_insertLead prepare_insertCustomer
      prepare_insertOpportunity seed_roles_def seed_leads_def seed_customers_def
      seed_opportunities_def eval_simps scan_def val_json_def
      columns_of_def tables_def roles_columns_def users_columns_def leads_columns_def
      customers_columns_def opportunities_columns_def soft_delete_columns_def col_def ref_def
      seed_rows_def seeded_role_def seeded_lead_def seed_text_defs)

lemma seeded_db_eq:
  "seeded_db now fk
     = \<lparr>tbl = (\<lambda>t. [])(''roles'' := seed_rows now ''roles'', ''users'' := seed_rows now ''users'',
                 ''leads'' := seed_rows now ''leads'',
                 ''customers'' := seed_rows now ''customers'',
                 ''opportunities'' := seed_rows now ''opportunities''),
         sqlite_sequence = (\<lambda>t. 0)(''roles'' := 4, ''users'' := 1, ''leads'' := 2,
                 ''customers'' := 1, ''opportunities'' := 1),
         foreign_keys = fk, prepared = 7\<rparr>"
  by (simp add: seeded_db_def startup_fresh)

lemma tbl_seeded: "tbl (seeded_db now fk) = seed_rows now"
  by (rule ext) (simp add: seeded_db_eq seed_rows_def)


subsection \<open>The seed never removes a row\<close>










subsection \<open>Updating the status alone\<close>

lemma find_status:
  assumes "m \<in> set validModules" and "m \<noteq> ''opportunities''"
  shows "\<exists>c. find_column (columns_of m) ''status'' = Some c \<and> cname c = ''status''
             \<and> ctype c = TEXT"
  using valid_cases [OF assms(1)] assms(2)
  by (elim disjE; simp add: columns_of_def tables_def find_column_def lower_def lower_char_table
        leads_columns_def customers_columns_def contracts_columns_def activities_columns_def
        soft_delete_columns_def col_def ref_def)

lemma find_status_opportunities: "find_column (columns_of ''opportunities'') ''status'' = None"
  by (simp add: columns_of_def tables_def find_column_def lower_def lower_char_table
      opportunities_columns_def soft_delete_columns_def col_def ref_def)

lemma plain_status: "plain_ident ''status''"
  by (simp add: plain_ident_def word_char_table)

lemma acceptable_status:
  assumes "m \<in> set validModules" and "m \<noteq> ''opportunities''" and "bind_value v = Inr x"
  shows "acceptable m [(''status'', v)]"
proof -
  obtain c where "find_column (columns_of m) ''status'' = Some c" "ctype c = TEXT"
    using find_status [OF assms(1,2)] by blast
  then show ?thesis
    using assms(3) by (simp add: acceptable_def plain_status store_text)
qed

lemma prepare_update_status:
  assumes "m \<in> set validModules" and "m \<noteq> ''opportunities''"
  shows "prepare (update_sql m [''status''])
           = Inr (Update m [(''status'', RParam), (''updated_at'', RNow)])"
proof -
  have "acceptable m [(''status'', JNull)]"
    using assms by (rule acceptable_status) (simp add: bind_value_def)
  from prepare_update_ok [OF assms(1) this] find_status [OF assms]
  show ?thesis by auto
qed

lemma prepare_update_status_opportunities:
  "prepare (update_sql ''opportunities'' [''status'']) = sql_error"
proof -
  have "parse (update_sql ''opportunities'' [''status''])
          = Parsed (Update ''opportunities''
                      (map (\<lambda>f. (f, RParam)) [''status''] @ [(''updated_at'', RNow)]))"
    by (rule parse_update) (simp_all add: plain_ident_def word_char_table)
  then show ?thesis
    by (simp add: prepare_def find_table_def tables_def lower_def lower_char_table
        find_status_opportunities)
qed

lemma update_status_eq:
  assumes "m \<in> set validModules" and "m \<noteq> ''opportunities''" and "bind_value v = Inr x"
    and "store INTEGER (VText ident) = Some idv"
  shows "update_api now d m ident [(''status'', v)]
           = (Json 200 BSuccess,
              (counted d)\<lparr>tbl := (tbl d)(m :=
                 map (\<lambda>r. if id_matches idv r then set_status now x r else r) (tbl d m))\<rparr>)"
proof -
  obtain c where c: "find_column (columns_of m) ''status'' = Some c" "cname c = ''status''"
    "ctype c = TEXT"
    using find_status [OF assms(1,2)] by blast
  have ty: "type_of (columns_of m) ''status'' = TEXT"
    using find_column_type [OF c(1)] c(2,3) by simp
  have "exec_update now (counted d) m [(''status'', RParam), (''updated_at'', RNow)]
          [x, VText ident]
        = Inr ((counted d)\<lparr>tbl := (tbl (counted d))(m :=
                 map (\<lambda>r. if id_matches idv r
                           then apply_assigns [(''status'', as_text x), (''updated_at'', VText now)] r
                           else r) (tbl (counted d) m))\<rparr>,
               length (filter (id_matches idv) (tbl (counted d) m)))"
    using assms(1,4)
    by (intro exec_update_unconstrained)
       (simp_all add: soft_delete_columns_free ty store_text)
  then show ?thesis
    using assms(3)
    by (simp add: update_api_def prepare_update_status [OF assms(1,2)] run_def
        placeholders_of_def bind_value_def apply_assigns_def set_status_def cong: if_cong)
qed

text \<open>The other outcomes of the request: the database is as it was.\<close>

lemma update_status_failed:
  assumes "m \<in> set validModules"
    and "m = ''opportunities'' \<or> (\<exists>e. bind_value v = Inl e) \<or> store INTEGER (VText ident) = None"
  shows "snd (update_api now d m ident [(''status'', v)]) = counted d
         \<and> fst (update_api now d m ident [(''status'', v)]) \<noteq> Json 200 BSuccess"
proof (cases "m = ''opportunities''")
  case True
  then show ?thesis
    by (simp add: update_api_def prepare_update_status_opportunities sql_error_def)
next
  case False
  note prep = prepare_update_status [OF assms(1) False]
  show ?thesis
  proof (cases "bind_value v")
    case (Inl e)
    then show ?thesis
      by (simp add: update_api_def prep run_def placeholders_of_def)
  next
    case (Inr x)
    with assms(2) False have none: "store INTEGER (VText ident) = None" by auto
    then show ?thesis
      using Inr
      by (simp add: update_api_def prep run_def placeholders_of_def bind_value_def
          exec_update_def split: option.splits)
  qed
qed

lemma col_val_set_status:
  "col_val (set_status now x r) c
     = (if c = ''updated_at'' then VText now else if c = ''status'' then as_text x
        else col_val r c)"
  by (simp add: set_status_def col_val_put)

subsection \<open>Evaluating requests on the seeded database\<close>

lemmas table_defs = columns_of_def tables_def roles_columns_def users_columns_def
  leads_columns_def customers_columns_def opportunities_columns_def contracts_columns_def
  activities_columns_def comments_columns_def follow_ups_columns_def soft_delete_columns_def
  col_def ref_def

lemmas seeded_simps = seeded_db_eq seed_rows_def seeded_role_def seeded_lead_def seed_text_defs

subsection \<open>The order of values and the comments route\<close>

lemma bytes_less_negtrans: "bytes_less a c \<Longrightarrow> bytes_less a b \<or> bytes_less b c"
proof (induction a c arbitrary: b rule: bytes_less.induct)
  case 1
  then show ?case by simp
next
  case (2 y ys)
  then show ?case by (cases b) simp_all
next
  case (3 x xs)
  then show ?case by simp
next
  case (4 x xs y ys)
  show ?case
  proof (cases b)
    case Nil
    then show ?thesis by simp
  next
    case (Cons z zs)
    consider "(of_char x :: nat) < of_char z" | "(of_char z :: nat) < of_char x" | "x = z"
      by (metis linorder_neqE_nat of_char_eq_iff)
    then show ?thesis
    proof cases
      case 1
      then show ?thesis using Cons by simp
    next
      case 2
      then show ?thesis using Cons 4 by auto
    next
      case 3
      then show ?thesis using Cons 4 by auto
    qed
  qed
qed

lemma bytes_less_asym: "bytes_less a b \<Longrightarrow> \<not> bytes_less b a"
  by (induction a b rule: bytes_less.induct) auto

lemma val_less_negtrans: "val_less a c \<Longrightarrow> val_less a b \<or> val_less b c"
  by (cases a; cases b; cases c) (auto dest: bytes_less_negtrans)

lemma val_less_asym: "val_less a b \<Longrightarrow> \<not> val_less b a"
  by (cases a; cases b) (auto dest: bytes_less_asym)

lemma sorted_insert_desc:
  assumes "sorted_wrt (\<lambda>a b. \<not> val_less (col_val a c) (col_val b c)) xs"
  shows "sorted_wrt (\<lambda>a b. \<not> val_less (col_val a c) (col_val b c)) (insert_desc c r xs)"
  using assms
proof (induction xs)
  case Nil
  then show ?case by simp
next
  case (Cons x xs)
  show ?case
  proof (cases "val_less (col_val r c) (col_val x c)")
    case True
    then show ?thesis
      using Cons by (auto simp: set_insert_desc dest: val_less_asym)
  next
    case False
    have "\<not> val_less (col_val r c) (col_val y c)" if "y \<in> set xs" for y
      using val_less_negtrans [of "col_val r c" "col_val y c" "col_val x c"] False Cons.prems that
      by auto
    then show ?thesis
      using False Cons.prems by auto
  qed
qed

lemma sorted_order_desc:
  "sorted_wrt (\<lambda>a b. \<not> val_less (col_val a c) (col_val b c)) (order_desc c rows)"
  by (induction rows) (simp_all add: order_desc_def sorted_insert_desc)

lemma store_text_not_null: "store t (VText s) = Some v \<Longrightarrow> v \<noteq> VNull"
  by (auto simp: store_def numeric_affinity_def split: if_splits option.splits)

lemma set_joined:
  "set (joined users c)
     = {c @ [(''username'', col_val u ''username'')] | u.
          u \<in> set users \<and> col_val c ''user_id'' \<noteq> VNull \<and> col_val c ''user_id'' = row_id u}"
  by (auto simp: joined_def)

section \<open>The claims\<close>

subsection \<open>The allow-list\<close>

text \<open>
  C1. For every module outside the allow-list, \<^verbatim>\<open>list\<close>, \<^verbatim>\<open>create\<close>, \<^verbatim>\<open>update\<close>,
  \<^verbatim>\<open>softDelete\<close> and \<^verbatim>\<open>restore\<close> fail with \<^verbatim>\<open>InvalidModule\<close> and hand no statement to
  the storage engine. Only the list route checks \<^verbatim>\<open>validModules\<close>. For the module
  \<^verbatim>\<open>users\<close> on the seeded database: \<^verbatim>\<open>list\<close> answers 404 and prepares nothing;
  \<^verbatim>\<open>create\<close> prepares \<^verbatim>\<open>INSERT INTO users (username) VALUES (?)\<close>, stores a second user
  and answers with its id; \<^verbatim>\<open>update\<close>, \<^verbatim>\<open>softDelete\<close> and \<^verbatim>\<open>restore\<close> prepare their
  statement too, which the engine rejects (the table has no \<^verbatim>\<open>updated_at\<close> or
  \<^verbatim>\<open>is_deleted\<close>), so they answer with status 500.
\<close>

theorem allow_list_only_on_list:
  "''users'' \<notin> set validModules
   \<and> list_api (seeded_db ''2026-01-01 00:00:00'' True) ''users'' no_query
       = (Json 404 (BError ''Invalid module''), seeded_db ''2026-01-01 00:00:00'' True)
   \<and> create_sql ''users'' (map fst [(''username'', JStr ''mallory'')])
       = ''INSERT INTO users (username) VALUES (?)''
   \<and> fst (create_api ''2026-01-02 00:00:00'' (seeded_db ''2026-01-01 00:00:00'' True) ''users''
             [(''username'', JStr ''mallory'')]) = Json 200 (BId 2)
   \<and> map (\<lambda>r. col_val r ''username'')
         (tbl (snd (create_api ''2026-01-02 00:00:00'' (seeded_db ''2026-01-01 00:00:00'' True)
                      ''users'' [(''username'', JStr ''mallory'')])) ''users'')
       = [VText ''admin'', VText ''mallory'']
   \<and> prepared (snd (create_api ''2026-01-02 00:00:00'' (seeded_db ''2026-01-01 00:00:00'' True)
                       ''users'' [(''username'', JStr ''mallory'')]))
       = Suc (prepared (seeded_db ''2026-01-01 00:00:00'' True))
   \<and> update_api ''2026-01-02 00:00:00'' (seeded_db ''2026-01-01 00:00:00'' True) ''users'' ''1''
         [(''password'', JStr ''x'')]
       = (Failed (Thrown (SqliteError SQLITE_ERROR)),
          counted (seeded_db ''2026-01-01 00:00:00'' True))
   \<and> soft_delete_api ''2026-01-02 00:00:00'' (seeded_db ''2026-01-01 00:00:00'' True)
         ''users'' ''1''
       = (Failed (Thrown (SqliteError SQLITE_ERROR)),
          counted (seeded_db ''2026-01-01 00:00:00'' True))
   \<and> restore_api ''2026-01-02 00:00:00'' (seeded_db ''2026-01-01 00:00:00'' True)
         ''users'' ''1''
       = (Failed (Thrown (SqliteError SQLITE_ERROR)),
          counted (seeded_db ''2026-01-01 00:00:00'' True))"
proof -
  have invalid: "''users'' \<notin> set validModules"
    by (simp add: validModules_def)
  then have lst: "list_api (seeded_db ''2026-01-01 00:00:00'' True) ''users'' no_query
       = (Json 404 (BError ''Invalid module''), seeded_db ''2026-01-01 00:00:00'' True)"
    by (simp add: list_api_def)
  have stmt: "create_sql ''users'' (map fst [(''username'', JStr ''mallory'')])
       = ''INSERT INTO users (username) VALUES (?)''"
    by (simp add: create_sql_def)
  have prep: "prepare ''INSERT INTO users (username) VALUES (?)''
                = Inr (Insert ''users'' [''username''] 1)"
    by (simp add: prepare_def parse_def parse_insert_def lex_simps kw_simps find_table_def
        find_column_def table_defs)
  have ins: "create_api ''2026-01-02 00:00:00'' (seeded_db ''2026-01-01 00:00:00'' True) ''users''
             [(''username'', JStr ''mallory'')]
      = (Json 200 (BId 2),
         (counted (seeded_db ''2026-01-01 00:00:00'' True))
           \<lparr>tbl := (tbl (seeded_db ''2026-01-01 00:00:00'' True))(''users'' :=
                tbl (seeded_db ''2026-01-01 00:00:00'' True) ''users''
                @ [ [(''id'', VInt 2), (''username'', VText ''mallory''), (''password'', VNull),
                    (''role_id'', VNull), (''department'', VNull)] ]),
             sqlite_sequence := (sqlite_sequence (seeded_db ''2026-01-01 00:00:00'' True))
                (''users'' := 2)\<rparr>)"
    unfolding create_api_def stmt prep
    by (simp add: eval_simps seeded_simps table_defs)
  have upd: "prepare (update_sql ''users'' [''password'']) = sql_error"
    by (simp add: update_sql_def prepare_def parse_def parse_update_def parse_rhs_def
        lex_simps kw_simps find_table_def find_column_def table_defs)
  have del: "prepare (soft_delete_sql ''users'') = sql_error"
    by (simp add: soft_delete_sql_def prepare_def parse_def parse_update_def parse_rhs_def
        lex_simps kw_simps digit_table int_of_digits_def digit_val_table find_table_def
        find_column_def table_defs)
  have res: "prepare (restore_sql ''users'') = sql_error"
    by (simp add: restore_sql_def prepare_def parse_def parse_update_def parse_rhs_def
        lex_simps kw_simps digit_table int_of_digits_def digit_val_table find_table_def
        find_column_def table_defs)
  have rows: "map (\<lambda>r. col_val r ''username'')
         (tbl (snd (create_api ''2026-01-02 00:00:00'' (seeded_db ''2026-01-01 00:00:00'' True)
                      ''users'' [(''username'', JStr ''mallory'')])) ''users'')
       = [VText ''admin'', VText ''mallory'']"
    by (simp add: ins) (simp add: seeded_simps col_val_def)
  show ?thesis
    using invalid lst stmt rows
    by (simp add: ins update_api_def upd soft_delete_api_def restore_api_def run_by_id_def
        del res sql_error_def)
qed

subsection \<open>Keys that are not columns\<close>

text \<open>
  C2 as stated: for every module and every field mapping with a key that is not a column
  of the module's table, \<^verbatim>\<open>create\<close> fails with \<^verbatim>\<open>UnknownField\<close> and creates no row. The
  handler splices the keys into the statement without looking at them. With the single
  key \<^verbatim>\<open>name) VALUES (?) --\<close>, which names no column, the statement reads
  \<^verbatim>\<open>INSERT INTO leads (name) VALUES (?) --) VALUES (?)\<close>; the rest of the line is a
  comment, the statement is accepted, and a third lead is stored.
\<close>

theorem unknown_key_counterexample:
  "find_column (columns_of ''leads'') ''name) VALUES (?) --'' = None
   \<and> create_sql ''leads'' (map fst [(''name) VALUES (?) --'', JStr ''Acme'')])
       = ''INSERT INTO leads (name) VALUES (?) --) VALUES (?)''
   \<and> fst (create_api ''2026-01-02 00:00:00'' (seeded_db ''2026-01-01 00:00:00'' True) ''leads''
             [(''name) VALUES (?) --'', JStr ''Acme'')]) = Json 200 (BId 3)
   \<and> length (tbl (seeded_db ''2026-01-01 00:00:00'' True) ''leads'') = 2
   \<and> map row_id (tbl (snd (create_api ''2026-01-02 00:00:00''
                               (seeded_db ''2026-01-01 00:00:00'' True) ''leads''
                               [(''name) VALUES (?) --'', JStr ''Acme'')])) ''leads'')
       = [VInt 1, VInt 2, VInt 3]"
proof -
  have key: "find_column (columns_of ''leads'') ''name) VALUES (?) --'' = None"
    by (simp add: find_column_def lower_def lower_char_def table_defs)
  have stmt: "create_sql ''leads'' (map fst [(''name) VALUES (?) --'', JStr ''Acme'')])
       = ''INSERT INTO leads (name) VALUES (?) --) VALUES (?)''"
    by (simp add: create_sql_def)
  have prep: "prepare ''INSERT INTO leads (name) VALUES (?) --) VALUES (?)''
                = Inr (Insert ''leads'' [''name''] 1)"
    by (simp add: prepare_def parse_def parse_insert_def lex_simps kw_simps find_table_def
        find_column_def table_defs)
  have run: "create_api ''2026-01-02 00:00:00'' (seeded_db ''2026-01-01 00:00:00'' True) ''leads''
             [(''name) VALUES (?) --'', JStr ''Acme'')]
      = (Json 200 (BId 3),
         (counted (seeded_db ''2026-01-01 00:00:00'' True))
           \<lparr>tbl := (tbl (seeded_db ''2026-01-01 00:00:00'' True))(''leads'' :=
                tbl (seeded_db ''2026-01-01 00:00:00'' True) ''leads''
                @ [ [(''id'', VInt 3), (''name'', VText ''Acme''), (''contact_person'', VNull),
                    (''phone'', VNull), (''email'', VNull), (''source'', VNull),
                    (''level'', VNull), (''status'', VText status_not_followed),
                    (''owner_id'', VNull), (''created_at'', VText ''2026-01-02 00:00:00''),
                    (''updated_at'', VText ''2026-01-02 00:00:00''), (''is_deleted'', VInt 0),
                    (''deleted_at'', VNull)] ]),
             sqlite_sequence := (sqlite_sequence (seeded_db ''2026-01-01 00:00:00'' True))
                (''leads'' := 3)\<rparr>)"
    unfolding create_api_def stmt prep
    by (simp add: eval_simps seeded_simps table_defs)
  show ?thesis
    using key stmt
    by (simp add: run del: map_eq_Cons_conv) (simp add: seeded_simps row_id_def col_val_def)
qed

text \<open>
  C2 as amended: for every allowed module and every field mapping whose keys are all plain
  identifiers (letters, digits, underscores), if some key names no column of the module's
  table then \<^verbatim>\<open>create\<close> fails with the error of the storage engine for the statement
  (\<^verbatim>\<open>SQLITE_ERROR\<close>, answered with status 500; the code has no \<^verbatim>\<open>UnknownField\<close> of its
  own) and no table changes.
\<close>

theorem unknown_column_rejected:
  assumes "m \<in> set validModules" and "list_all plain_ident (map fst req_body)"
    and "list_ex (\<lambda>k. find_column (columns_of m) k = None) (map fst req_body)"
  shows "fst (create_api now d m req_body) = Failed (Thrown (SqliteError SQLITE_ERROR))
       \<and> status_code (fst (create_api now d m req_body)) = Some 500
       \<and> tbl (snd (create_api now d m req_body)) = tbl d
       \<and> sqlite_sequence (snd (create_api now d m req_body)) = sqlite_sequence d"
proof -
  have "\<exists>k\<in>set (map fst req_body). find_column (columns_of m) k = None"
    using assms(3) by (simp add: list_ex_iff)
  then have "prepare (create_sql m (map fst req_body)) = sql_error"
    using assms(1,2) by (intro prepare_create_unknown)
  then show ?thesis
    by (simp add: create_api_def sql_error_def status_code_def)
qed

theorem unknown_column_rejected_witness:
  "''leads'' \<in> set validModules
   \<and> list_all plain_ident (map fst [(''nonexistent_col'', JNum 1)])
   \<and> list_ex (\<lambda>k. find_column (columns_of ''leads'') k = None)
        (map fst [(''nonexistent_col'', JNum 1)])
   \<and> fst (create_api ''2026-01-02 00:00:00'' (seeded_db ''2026-01-01 00:00:00'' True) ''leads''
             [(''nonexistent_col'', JNum 1)]) = Failed (Thrown (SqliteError SQLITE_ERROR))
   \<and> tbl (snd (create_api ''2026-01-02 00:00:00'' (seeded_db ''2026-01-01 00:00:00'' True)
                  ''leads'' [(''nonexistent_col'', JNum 1)]))
       = tbl (seeded_db ''2026-01-01 00:00:00'' True)"
proof -
  have valid: "''leads'' \<in> set validModules"
    by (simp add: validModules_def)
  have plain: "list_all plain_ident (map fst [(''nonexistent_col'', JNum 1)])"
    by (simp add: plain_ident_def word_char_table)
  have unknown: "list_ex (\<lambda>k. find_column (columns_of ''leads'') k = None)
        (map fst [(''nonexistent_col'', JNum 1)])"
    by (simp add: find_column_def lower_def lower_char_table table_defs)
  show ?thesis
    using valid plain unknown
      unknown_column_rejected [OF valid plain unknown, of "''2026-01-02 00:00:00''"
        "seeded_db ''2026-01-01 00:00:00'' True"]
    by simp
qed

subsection \<open>An id that no row has\<close>




subsection \<open>Default filtering of the list\<close>

text \<open>
  C4. For every allowed module, \<^verbatim>\<open>list(module, {})\<close> with no filter succeeds and returns
  exactly the stored rows whose \<^verbatim>\<open>is_deleted\<close> is 0, so never a record whose flag is set;
  \<^verbatim>\<open>list(module, {is_deleted: 1})\<close> (the flag as the query text \<^verbatim>\<open>1\<close>, the value soft
  delete writes) returns exactly the stored rows whose \<^verbatim>\<open>is_deleted\<close> is 1.
\<close>

theorem list_filters_by_deleted_flag:
  assumes "m \<in> set validModules"
  shows "(\<exists>rows. list_api d m no_query = (Json 200 (BRows rows), counted d)
            \<and> set rows = {r \<in> set (tbl d m). col_val r ''is_deleted'' = VInt 0}
            \<and> list_all (\<lambda>r. col_val r ''is_deleted'' \<noteq> VInt 1) rows)
       \<and> (\<exists>rows. list_api d m (no_query\<lparr>query_is_deleted := Some ''1''\<rparr>)
                     = (Json 200 (BRows rows), counted d)
            \<and> set rows = {r \<in> set (tbl d m). col_val r ''is_deleted'' = VInt 1}
            \<and> list_all (\<lambda>r. col_val r ''is_deleted'' = VInt 1) rows)"
proof -
  have plain: "\<not> truthy (query_q no_query)" "\<not> truthy (query_status no_query)"
    "query_is_deleted no_query = None"
    by (simp_all add: no_query_def truthy_def)
  have "list_api d m no_query
          = (Json 200 (BRows (order_desc ''created_at''
               (filter (\<lambda>r. col_val r ''is_deleted'' = VInt 0) (scan (tbl d m))))),
             counted d)"
    using assms plain by (rule list_api_default)
  then have first: "\<exists>rows. list_api d m no_query = (Json 200 (BRows rows), counted d)
            \<and> set rows = {r \<in> set (tbl d m). col_val r ''is_deleted'' = VInt 0}
            \<and> list_all (\<lambda>r. col_val r ''is_deleted'' \<noteq> VInt 1) rows"
    by (auto simp: set_order_desc set_scan list_all_iff)
  have "list_api d m (no_query\<lparr>query_is_deleted := Some ''1''\<rparr>)
          = (Json 200 (BRows (order_desc ''created_at''
               (filter (\<lambda>r. VInt 1 \<noteq> VNull \<and> col_val r ''is_deleted'' = VInt 1)
                  (scan (tbl d m))))),
             counted d)"
    using assms plain
    by (intro list_api_flag [where s = "''1''"]) (simp_all add: numeric_affinity_literal [OF int_literal_1])
  then have "\<exists>rows. list_api d m (no_query\<lparr>query_is_deleted := Some ''1''\<rparr>)
                     = (Json 200 (BRows rows), counted d)
            \<and> set rows = {r \<in> set (tbl d m). col_val r ''is_deleted'' = VInt 1}
            \<and> list_all (\<lambda>r. col_val r ''is_deleted'' = VInt 1) rows"
    by (auto simp: set_order_desc set_scan list_all_iff)
  with first show ?thesis by blast
qed

theorem list_filters_by_deleted_flag_witness:
  "''leads'' \<in> set validModules
   \<and> (\<exists>rows. list_api (seeded_db ''2026-01-01 00:00:00'' True) ''leads'' no_query
                 = (Json 200 (BRows rows), counted (seeded_db ''2026-01-01 00:00:00'' True))
          \<and> set rows = set (seed_rows ''2026-01-01 00:00:00'' ''leads''))
   \<and> (\<exists>rows. list_api (seeded_db ''2026-01-01 00:00:00'' True) ''leads''
                   (no_query\<lparr>query_is_deleted := Some ''1''\<rparr>)
                 = (Json 200 (BRows rows), counted (seeded_db ''2026-01-01 00:00:00'' True))
          \<and> set rows = {})"
proof -
  have valid: "''leads'' \<in> set validModules"
    by (simp add: validModules_def)
  have live: "{r \<in> set (tbl (seeded_db ''2026-01-01 00:00:00'' True) ''leads'').
                col_val r ''is_deleted'' = VInt 0}
              = set (seed_rows ''2026-01-01 00:00:00'' ''leads'')"
    by (auto simp: tbl_seeded seed_rows_def seeded_lead_def col_val_def)
  have dead: "{r \<in> set (tbl (seeded_db ''2026-01-01 00:00:00'' True) ''leads'').
                col_val r ''is_deleted'' = VInt 1} = {}"
    by (auto simp: tbl_seeded seed_rows_def seeded_lead_def col_val_def)
  show ?thesis
    using valid
      list_filters_by_deleted_flag [OF valid, of "seeded_db ''2026-01-01 00:00:00'' True"]
    unfolding live dead by blast
qed

subsection \<open>Soft delete followed by restore\<close>

text \<open>
  C5. For every record of an allowed module, \<^verbatim>\<open>softDelete(module, id)\<close> followed by
  \<^verbatim>\<open>restore(module, id)\<close> both succeed and leave the record identical to its state before
  the delete in every field except \<^verbatim>\<open>is_deleted\<close> and \<^verbatim>\<open>deleted_at\<close> (which end as 0 and
  NULL; \<^verbatim>\<open>updated_at\<close> is not touched either), no other row of any table changes, and the
  record is in the output of the default \<^verbatim>\<open>list(module, {})\<close>.
\<close>

theorem soft_delete_restore_round_trip:
  assumes "m \<in> set validModules" and "int_literal ident = Some n"
    and "r \<in> set (tbl d m)" and "row_id r = VInt n"
  shows "let d1 = snd (soft_delete_api now d m ident);
             d2 = snd (restore_api now' d1 m ident)
         in fst (soft_delete_api now d m ident) = Json 200 BSuccess
          \<and> fst (restore_api now' d1 m ident) = Json 200 BSuccess
          \<and> tbl d2 = (tbl d)(m := map (\<lambda>x. if row_id x = VInt n then mark_restored x else x)
                                    (tbl d m))
          \<and> (\<forall>c. c \<noteq> ''is_deleted'' \<and> c \<noteq> ''deleted_at''
                  \<longrightarrow> col_val (mark_restored r) c = col_val r c)
          \<and> col_val (mark_restored r) ''is_deleted'' = VInt 0
          \<and> col_val (mark_restored r) ''deleted_at'' = VNull
          \<and> (\<exists>rows. list_api d2 m no_query = (Json 200 (BRows rows), counted d2)
                \<and> mark_restored r \<in> set rows)"
proof -
  define d1 where "d1 = snd (soft_delete_api now d m ident)"
  define d2 where "d2 = snd (restore_api now' d1 m ident)"
  have idv: "store INTEGER (VText ident) = Some (VInt n)"
    using assms(2) by (rule store_integer_literal)
  have del: "soft_delete_api now d m ident
               = (Json 200 BSuccess,
                  (counted d)\<lparr>tbl := (tbl d)(m :=
                     map (\<lambda>x. if id_matches (VInt n) x then mark_deleted now x else x)
                       (tbl d m))\<rparr>)"
    using assms(1) idv by (rule soft_delete_api_eq)
  have res: "restore_api now' d1 m ident
               = (Json 200 BSuccess,
                  (counted d1)\<lparr>tbl := (tbl d1)(m :=
                     map (\<lambda>x. if id_matches (VInt n) x then mark_restored x else x)
                       (tbl d1 m))\<rparr>)"
    using assms(1) idv by (rule restore_api_eq)
  have t1: "tbl d1 = (tbl d)(m :=
              map (\<lambda>x. if id_matches (VInt n) x then mark_deleted now x else x) (tbl d m))"
    by (simp add: d1_def del)
  have t2: "tbl d2 = (tbl d)(m :=
              map (\<lambda>x. if row_id x = VInt n then mark_restored x else x) (tbl d m))"
    by (simp add: d2_def res t1 map_restore_delete del: map_map) (simp add: id_matches_def)
  have plain: "\<not> truthy (query_q no_query)" "\<not> truthy (query_status no_query)"
    "query_is_deleted no_query = None"
    by (simp_all add: no_query_def truthy_def)
  have lst: "list_api d2 m no_query
          = (Json 200 (BRows (order_desc ''created_at''
               (filter (\<lambda>r. col_val r ''is_deleted'' = VInt 0) (scan (tbl d2 m))))),
             counted d2)"
    using assms(1) plain by (rule list_api_default)
  have "mark_restored r \<in> set (tbl d2 m)"
    using assms(3,4) by (force simp: t2)
  then have "\<exists>rows. list_api d2 m no_query = (Json 200 (BRows rows), counted d2)
                \<and> mark_restored r \<in> set rows"
    by (simp add: lst set_order_desc set_scan col_val_mark_restored)
  then show ?thesis
    unfolding Let_def d1_def [symmetric] d2_def [symmetric]
    by (simp add: del res t2 col_val_mark_restored)
qed

theorem soft_delete_restore_round_trip_witness:
  "''leads'' \<in> set validModules \<and> int_literal ''1'' = Some 1
   \<and> hd (seed_rows ''2026-01-01 00:00:00'' ''leads'')
       \<in> set (tbl (seeded_db ''2026-01-01 00:00:00'' True) ''leads'')
   \<and> row_id (hd (seed_rows ''2026-01-01 00:00:00'' ''leads'')) = VInt 1
   \<and> fst (soft_delete_api ''2026-01-02 00:00:00'' (seeded_db ''2026-01-01 00:00:00'' True)
              ''leads'' ''1'') = Json 200 BSuccess
   \<and> fst (restore_api ''2026-01-03 00:00:00''
              (snd (soft_delete_api ''2026-01-02 00:00:00''
                      (seeded_db ''2026-01-01 00:00:00'' True) ''leads'' ''1''))
              ''leads'' ''1'') = Json 200 BSuccess
   \<and> mark_restored (hd (seed_rows ''2026-01-01 00:00:00'' ''leads''))
       = hd (seed_rows ''2026-01-01 00:00:00'' ''leads'')"
proof -
  have valid: "''leads'' \<in> set validModules"
    by (simp add: validModules_def)
  have stored: "hd (seed_rows ''2026-01-01 00:00:00'' ''leads'')
                  \<in> set (tbl (seeded_db ''2026-01-01 00:00:00'' True) ''leads'')"
    by (simp add: tbl_seeded seed_rows_def)
  have ident: "row_id (hd (seed_rows ''2026-01-01 00:00:00'' ''leads'')) = VInt 1"
    by (simp add: seed_rows_def seeded_lead_def row_id_def col_val_def)
  have same: "mark_restored (hd (seed_rows ''2026-01-01 00:00:00'' ''leads''))
                = hd (seed_rows ''2026-01-01 00:00:00'' ''leads'')"
    by (simp add: seed_rows_def seeded_lead_def mark_restored_def)
  show ?thesis
    using valid int_literal_1 stored ident same
      soft_delete_restore_round_trip [OF valid int_literal_1 stored ident,
        of "''2026-01-02 00:00:00''" "''2026-01-03 00:00:00''"]
    by (simp add: Let_def)
qed

subsection \<open>Free-text search\<close>

text \<open>
  C6. For every allowed module and every non-empty \<^verbatim>\<open>q\<close>, \<^verbatim>\<open>list(module, {q})\<close> succeeds
  and returns the rows whose \<^verbatim>\<open>name\<close> or \<^verbatim>\<open>contact_person\<close> matches. The statement names
  the column \<^verbatim>\<open>contact_person\<close> for every module, and the tables of opportunities,
  contracts and activities have no such column: on the seeded database the search for
  \<^verbatim>\<open>Q1\<close> among the opportunities, one of which is named \<^verbatim>\<open>Q1 Software Upgrade\<close>, is
  rejected by the engine, as is any search in contracts and activities, while the search
  for \<^verbatim>\<open>tech\<close> among the leads returns the lead \<^verbatim>\<open>Tech Solutions Inc\<close>.
\<close>

theorem search_fails_without_contact_person:
  "''opportunities'' \<in> set validModules
   \<and> map (\<lambda>r. col_val r ''name'') (tbl (seeded_db ''2026-01-01 00:00:00'' True) ''opportunities'')
       = [VText ''Q1 Software Upgrade'']
   \<and> list_sql ''opportunities'' (no_query\<lparr>query_q := Some ''Q1''\<rparr>)
       = ''SELECT * FROM opportunities WHERE is_deleted = ?''
         @ '' AND (name LIKE ? OR contact_person LIKE ?) ORDER BY created_at DESC''
   \<and> list_api (seeded_db ''2026-01-01 00:00:00'' True) ''opportunities''
         (no_query\<lparr>query_q := Some ''Q1''\<rparr>)
       = (Failed (Thrown (SqliteError SQLITE_ERROR)),
          counted (seeded_db ''2026-01-01 00:00:00'' True))
   \<and> fst (list_api d ''contracts'' (no_query\<lparr>query_q := Some ''Q1''\<rparr>))
       = Failed (Thrown (SqliteError SQLITE_ERROR))
   \<and> fst (list_api d ''activities'' (no_query\<lparr>query_q := Some ''Q1''\<rparr>))
       = Failed (Thrown (SqliteError SQLITE_ERROR))
   \<and> fst (list_api (seeded_db ''2026-01-01 00:00:00'' True) ''leads''
             (no_query\<lparr>query_q := Some ''tech''\<rparr>))
       = Json 200 (BRows [hd (seed_rows ''2026-01-01 00:00:00'' ''leads'')])"
proof -
  have valid: "''opportunities'' \<in> set validModules" "''contracts'' \<in> set validModules"
    "''activities'' \<in> set validModules" "''leads'' \<in> set validModules"
    by (simp_all add: validModules_def)
  have names: "map (\<lambda>r. col_val r ''name'')
                 (tbl (seeded_db ''2026-01-01 00:00:00'' True) ''opportunities'')
               = [VText ''Q1 Software Upgrade'']"
    by (simp add: seeded_simps col_val_def)
  have stmt: "list_sql ''opportunities'' (no_query\<lparr>query_q := Some ''Q1''\<rparr>)
       = ''SELECT * FROM opportunities WHERE is_deleted = ?''
         @ '' AND (name LIKE ? OR contact_person LIKE ?) ORDER BY created_at DESC''"
    by (simp add: list_sql_def no_query_def truthy_def)
  have opp: "prepare (list_sql ''opportunities'' (no_query\<lparr>query_q := Some ''Q1''\<rparr>)) = sql_error"
    by (simp add: list_sql_def no_query_def truthy_def prepare_def parse_def parse_select_def
        parse_cond_def lex_simps kw_simps find_table_def find_column_def table_defs)
  have con: "prepare (list_sql ''contracts'' (no_query\<lparr>query_q := Some ''Q1''\<rparr>)) = sql_error"
    by (simp add: list_sql_def no_query_def truthy_def prepare_def parse_def parse_select_def
        parse_cond_def lex_simps kw_simps find_table_def find_column_def table_defs)
  have act: "prepare (list_sql ''activities'' (no_query\<lparr>query_q := Some ''Q1''\<rparr>)) = sql_error"
    by (simp add: list_sql_def no_query_def truthy_def prepare_def parse_def parse_select_def
        parse_cond_def lex_simps kw_simps find_table_def find_column_def table_defs)
  have lead: "prepare (list_sql ''leads'' (no_query\<lparr>query_q := Some ''tech''\<rparr>))
                = Inr (Select ''leads'' [CEq ''is_deleted'', CLikeOr ''name'' ''contact_person'']
                         ''created_at'')"
    by (simp add: list_sql_def no_query_def truthy_def prepare_def parse_def parse_select_def
        parse_cond_def lex_simps kw_simps find_table_def find_column_def table_defs)
  have params: "list_params (no_query\<lparr>query_q := Some ''tech''\<rparr>)
                  = [JNum 0, JStr ''%tech%'', JStr ''%tech%'']"
    by (simp add: list_params_def no_query_def)
  have found: "fst (list_api (seeded_db ''2026-01-01 00:00:00'' True) ''leads''
             (no_query\<lparr>query_q := Some ''tech''\<rparr>))
       = Json 200 (BRows [hd (seed_rows ''2026-01-01 00:00:00'' ''leads'')])"
    using valid(4)
    by (simp add: list_api_def lead params all_rows_def placeholders_of_def
        bind_value_def exec_select_def type_of_def store_def seeded_simps scan_def
        order_desc_def like_val_def text_of_def lower_char_table col_val_def row_id_def
        table_defs)
  have "list_api (seeded_db ''2026-01-01 00:00:00'' True) ''opportunities''
         (no_query\<lparr>query_q := Some ''Q1''\<rparr>)
       = (Failed (Thrown (SqliteError SQLITE_ERROR)),
          counted (seeded_db ''2026-01-01 00:00:00'' True))"
    using valid(1) by (simp add: list_api_def opp sql_error_def)
  moreover have "fst (list_api d ''contracts'' (no_query\<lparr>query_q := Some ''Q1''\<rparr>))
       = Failed (Thrown (SqliteError SQLITE_ERROR))"
    using valid(2) by (simp add: list_api_def con sql_error_def)
  moreover have "fst (list_api d ''activities'' (no_query\<lparr>query_q := Some ''Q1''\<rparr>))
       = Failed (Thrown (SqliteError SQLITE_ERROR))"
    using valid(3) by (simp add: list_api_def act sql_error_def)
  ultimately show ?thesis
    using valid(1) names stmt found by blast
qed

subsection \<open>Updating only the status\<close>

text \<open>
  C7. For every allowed module, \<^verbatim>\<open>update(module, id, {status: v})\<close> leaves every table
  other than the module's as it was, and in the module's table every row keeps every field
  other than \<^verbatim>\<open>status\<close> and \<^verbatim>\<open>updated_at\<close>; a row is either untouched or has
  \<^verbatim>\<open>updated_at\<close> set to the current time. When the module has a \<^verbatim>\<open>status\<close> column
  (every module but opportunities), the value can be bound and the id is text the model
  covers, the update succeeds and exactly the rows with that id get the new status and
  the current time.
\<close>

theorem update_status_frame:
  assumes "m \<in> set validModules"
  shows "(\<forall>t. t \<noteq> m \<longrightarrow> tbl (snd (update_api now d m ident [(''status'', v)])) t = tbl d t)
       \<and> list_all2 (\<lambda>r r'. (\<forall>c. c \<noteq> ''status'' \<and> c \<noteq> ''updated_at'' \<longrightarrow> col_val r' c = col_val r c)
                          \<and> (r' = r \<or> col_val r' ''updated_at'' = VText now))
           (tbl d m) (tbl (snd (update_api now d m ident [(''status'', v)])) m)
       \<and> (m \<noteq> ''opportunities'' \<and> bind_value v = Inr x \<and> store INTEGER (VText ident) = Some idv
            \<longrightarrow> fst (update_api now d m ident [(''status'', v)]) = Json 200 BSuccess
              \<and> tbl (snd (update_api now d m ident [(''status'', v)])) m
                  = map (\<lambda>r. if id_matches idv r then set_status now x r else r) (tbl d m))"
proof -
  let ?res = "update_api now d m ident [(''status'', v)]"
  have frame: "(\<forall>t. t \<noteq> m \<longrightarrow> tbl (snd ?res) t = tbl d t)
       \<and> list_all2 (\<lambda>r r'. (\<forall>c. c \<noteq> ''status'' \<and> c \<noteq> ''updated_at'' \<longrightarrow> col_val r' c = col_val r c)
                          \<and> (r' = r \<or> col_val r' ''updated_at'' = VText now))
           (tbl d m) (tbl (snd ?res) m)"
  proof (cases "m = ''opportunities'' \<or> (\<exists>e. bind_value v = Inl e)
                \<or> store INTEGER (VText ident) = None")
    case True
    then have "snd ?res = counted d"
      using update_status_failed [OF assms] by blast
    then show ?thesis
      by (simp add: list_all2_same)
  next
    case False
    then obtain y w where "m \<noteq> ''opportunities''" "bind_value v = Inr y"
      "store INTEGER (VText ident) = Some w"
      by (cases "bind_value v"; cases "store INTEGER (VText ident)") auto
    then have "?res = (Json 200 BSuccess,
              (counted d)\<lparr>tbl := (tbl d)(m :=
                 map (\<lambda>r. if id_matches w r then set_status now y r else r) (tbl d m))\<rparr>)"
      using assms by (intro update_status_eq)
    then show ?thesis
      by (simp add: list_all2_map2 list_all2_same col_val_set_status)
  qed
  have "m \<noteq> ''opportunities'' \<and> bind_value v = Inr x \<and> store INTEGER (VText ident) = Some idv
            \<longrightarrow> fst ?res = Json 200 BSuccess
              \<and> tbl (snd ?res) m
                  = map (\<lambda>r. if id_matches idv r then set_status now x r else r) (tbl d m)"
    using assms by (auto simp: update_status_eq)
  with frame show ?thesis by blast
qed

theorem update_status_frame_witness:
  "''leads'' \<in> set validModules \<and> ''leads'' \<noteq> ''opportunities''
   \<and> bind_value (JStr ''closed'') = Inr (VText ''closed'')
   \<and> store INTEGER (VText ''1'') = Some (VInt 1)
   \<and> fst (update_api ''2026-01-02 00:00:00'' (seeded_db ''2026-01-01 00:00:00'' True)
             ''leads'' ''1'' [(''status'', JStr ''closed'')]) = Json 200 BSuccess
   \<and> map (\<lambda>r. (col_val r ''id'', col_val r ''name'', col_val r ''status'',
                  col_val r ''updated_at''))
       (tbl (snd (update_api ''2026-01-02 00:00:00'' (seeded_db ''2026-01-01 00:00:00'' True)
                    ''leads'' ''1'' [(''status'', JStr ''closed'')])) ''leads'')
       = [(VInt 1, VText ''Tech Solutions Inc'', VText ''closed'', VText ''2026-01-02 00:00:00''),
          (VInt 2, VText ''Green Energy Co'', VText status_not_followed,
           VText ''2026-01-01 00:00:00'')]"
proof -
  have valid: "''leads'' \<in> set validModules"
    by (simp add: validModules_def)
  have bound: "bind_value (JStr ''closed'') = Inr (VText ''closed'')"
    by (simp add: bind_value_def)
  have idv: "store INTEGER (VText ''1'') = Some (VInt 1)"
    by (rule store_integer_literal) (rule int_literal_1)
  from update_status_frame [OF valid, of "''2026-01-02 00:00:00''"
      "seeded_db ''2026-01-01 00:00:00'' True" "''1''" "JStr ''closed''" "VText ''closed''"
      "VInt 1"] bound idv
  have ok: "fst (update_api ''2026-01-02 00:00:00'' (seeded_db ''2026-01-01 00:00:00'' True)
             ''leads'' ''1'' [(''status'', JStr ''closed'')]) = Json 200 BSuccess"
    and rows: "tbl (snd (update_api ''2026-01-02 00:00:00''
                 (seeded_db ''2026-01-01 00:00:00'' True) ''leads'' ''1''
                 [(''status'', JStr ''closed'')])) ''leads''
       = map (\<lambda>r. if id_matches (VInt 1) r
                    then set_status ''2026-01-02 00:00:00'' (VText ''closed'') r else r)
           (tbl (seeded_db ''2026-01-01 00:00:00'' True) ''leads'')"
    by simp_all
  show ?thesis
    using valid bound idv ok
    by (simp add: rows tbl_seeded seed_rows_def seeded_lead_def id_matches_def row_id_def
        col_val_def set_status_def as_text_def)
qed

subsection \<open>Listing the comments of an entity\<close>

text \<open>
  C8 as stated: \<^verbatim>\<open>listFor(entityType, entityId)\<close> returns all comments stored for the
  pair, including those whose \<^verbatim>\<open>user_id\<close> matches no user. The statement joins the
  comments with the users by an inner join. On the seeded database, a comment on lead 1
  posted with \<^verbatim>\<open>user_id\<close> null is stored, and the list for lead 1 is empty.
\<close>

theorem comment_without_user_counterexample:
  "tbl (snd (create_api ''2026-01-02 00:00:00'' (seeded_db ''2026-01-01 00:00:00'' True)
               ''comments''
               [(''entity_type'', JStr ''leads''), (''entity_id'', JNum 1), (''user_id'', JNull),
                (''content'', JStr ''hi'')])) ''comments''
     = [ [(''id'', VInt 1), (''entity_type'', VText ''leads''), (''entity_id'', VInt 1),
         (''user_id'', VNull), (''content'', VText ''hi''), (''parent_id'', VNull),
         (''created_at'', VText ''2026-01-02 00:00:00'')] ]
   \<and> fst (comments_api
            (snd (create_api ''2026-01-02 00:00:00'' (seeded_db ''2026-01-01 00:00:00'' True)
                    ''comments''
                    [(''entity_type'', JStr ''leads''), (''entity_id'', JNum 1),
                     (''user_id'', JNull), (''content'', JStr ''hi'')]))
            ''leads'' ''1'')
       = Json 200 (BRows [])"
proof -
  have stmt: "create_sql ''comments''
                (map fst [(''entity_type'', JStr ''leads''), (''entity_id'', JNum 1),
                          (''user_id'', JNull), (''content'', JStr ''hi'')])
              = ''INSERT INTO comments (entity_type,entity_id,user_id,content) VALUES (?,?,?,?)''"
    by (simp add: create_sql_def)
  have prep: "prepare ''INSERT INTO comments (entity_type,entity_id,user_id,content) VALUES (?,?,?,?)''
                = Inr (Insert ''comments'' [''entity_type'', ''entity_id'', ''user_id'', ''content''] 4)"
    by (simp add: prepare_def parse_def parse_insert_def lex_simps kw_simps find_table_def
        find_column_def table_defs)
  have ins: "create_api ''2026-01-02 00:00:00'' (seeded_db ''2026-01-01 00:00:00'' True)
               ''comments''
               [(''entity_type'', JStr ''leads''), (''entity_id'', JNum 1), (''user_id'', JNull),
                (''content'', JStr ''hi'')]
      = (Json 200 (BId 1),
         (counted (seeded_db ''2026-01-01 00:00:00'' True))
           \<lparr>tbl := (tbl (seeded_db ''2026-01-01 00:00:00'' True))(''comments'' :=
                [ [(''id'', VInt 1), (''entity_type'', VText ''leads''), (''entity_id'', VInt 1),
                  (''user_id'', VNull), (''content'', VText ''hi''), (''parent_id'', VNull),
                  (''created_at'', VText ''2026-01-02 00:00:00'')] ]),
             sqlite_sequence := (sqlite_sequence (seeded_db ''2026-01-01 00:00:00'' True))
                (''comments'' := 1)\<rparr>)"
    unfolding create_api_def stmt prep
    by (simp add: eval_simps seeded_simps table_defs)
  have idv: "store INTEGER (VText ''1'') = Some (VInt 1)"
    by (rule store_integer_literal) (rule int_literal_1)
  show ?thesis
    by (simp add: ins comments_api_def idv scan_def joined_def order_desc_def col_val_def)
qed

text \<open>
  C8 as amended: \<^verbatim>\<open>listFor(entityType, entityId)\<close> returns exactly the comments stored
  for the pair whose \<^verbatim>\<open>user_id\<close> is the id of an existing user (a comment that matches no
  user is left out), each followed by that user's \<^verbatim>\<open>username\<close>, in descending order of
  \<^verbatim>\<open>created_at\<close>.
\<close>

theorem comments_of_known_users:
  assumes "store INTEGER (VText ident) = Some v"
  shows "\<exists>rows. comments_api d entity_type ident = (Json 200 (BRows rows), counted d)
           \<and> set rows
               = {c @ [(''username'', col_val u ''username'')] | c u.
                    c \<in> set (tbl d ''comments'') \<and> u \<in> set (tbl d ''users'')
                    \<and> col_val c ''entity_type'' = VText entity_type
                    \<and> col_val c ''entity_id'' = v
                    \<and> col_val c ''user_id'' \<noteq> VNull \<and> col_val c ''user_id'' = row_id u}
           \<and> newest_first rows"
proof -
  have "v \<noteq> VNull"
    using assms by (rule store_text_not_null)
  then show ?thesis
    using assms
    by (auto simp: comments_api_def set_order_desc set_scan set_joined newest_first_def
        sorted_order_desc)
qed

theorem comments_of_known_users_witness:
  "store INTEGER (VText ''1'') = Some (VInt 1)
   \<and> (\<exists>rows. comments_api (commented_db (VInt 1)) ''leads'' ''1''
                 = (Json 200 (BRows rows), counted (commented_db (VInt 1)))
          \<and> set rows = {sample_comment (VInt 1) @ [(''username'', VText ''admin'')]}
          \<and> newest_first rows)"
proof -
  have idv: "store INTEGER (VText ''1'') = Some (VInt 1)"
    by (rule store_integer_literal) (rule int_literal_1)
  have "{c @ [(''username'', col_val u ''username'')] | c u.
            c \<in> set (tbl (commented_db (VInt 1)) ''comments'')
            \<and> u \<in> set (tbl (commented_db (VInt 1)) ''users'')
            \<and> col_val c ''entity_type'' = VText ''leads''
            \<and> col_val c ''entity_id'' = VInt 1
            \<and> col_val c ''user_id'' \<noteq> VNull \<and> col_val c ''user_id'' = row_id u}
        = {sample_comment (VInt 1) @ [(''username'', VText ''admin'')]}"
    by (auto simp: commented_db_def sample_comment_def tbl_seeded seed_rows_def col_val_def
        row_id_def)
  with comments_of_known_users [OF idv, of "commented_db (VInt 1)" "''leads''"] idv
  show ?thesis by auto
qed

subsection \<open>Seeding\<close>



subsection \<open>Creating with an empty body\<close>

text \<open>
  C10. For every module, \<^verbatim>\<open>create(module, {})\<close> with an empty field mapping does not
  create a row of schema defaults: the statement built is
  \<^verbatim>\<open>INSERT INTO module () VALUES ()\<close>, with empty lists of columns and values, the storage
  engine rejects it with an error, and every table is left as it was.
\<close>

theorem create_empty_body_rejected:
  assumes "m \<in> set validModules"
  shows "create_sql m (map fst []) = ''INSERT INTO '' @ m @ '' () VALUES ()''
         \<and> fst (create_api now d m []) = Failed (Thrown (SqliteError SQLITE_ERROR))
         \<and> tbl (snd (create_api now d m [])) = tbl d
         \<and> sqlite_sequence (snd (create_api now d m [])) = sqlite_sequence d"
proof -
  have "create_sql m (map fst []) = ''INSERT INTO '' @ m @ '' () VALUES ()''"
    by (simp add: create_sql_def)
  moreover have "create_api now d m [] = (Failed (Thrown (SqliteError SQLITE_ERROR)), counted d)"
    using valid_plain [OF assms]
    by (simp add: create_api_def prepare_create_empty sql_error_def)
  ultimately show ?thesis by simp
qed

theorem create_empty_body_rejected_witness:
  "''leads'' \<in> set validModules
   \<and> create_sql ''leads'' (map fst []) = ''INSERT INTO leads () VALUES ()''
   \<and> fst (create_api ''2026-01-01 00:00:00'' (fresh_db True) ''leads'' [])
       = Failed (Thrown (SqliteError SQLITE_ERROR))
   \<and> tbl (snd (create_api ''2026-01-01 00:00:00'' (fresh_db True) ''leads'' []))
       = tbl (fresh_db True)"
  using create_empty_body_rejected [of "''leads''" "''2026-01-01 00:00:00''" "fresh_db True"]
  by (simp add: validModules_def)

end
